theory Spec2Isabelle
  imports Complex_Main
begin

section \<open>Numbers and rounding\<close>

text \<open>
  Python floats are modelled as exact rationals. The credibility arithmetic only ever
  adds and subtracts multiples of one half, which binary floating point represents
  exactly, so nothing is lost there; for the weighted total the rational value is the
  ideal value of the float expression.

  \<open>round(x, 1)\<close> rounds the exact value of its argument to one decimal, ties going to
  the even neighbour. For a number of months \<open>m\<close> the quotient \<open>m / 12\<close> is a tie only
  when it is an odd multiple of one quarter, which is exact in binary as well.
\<close>

definition py_round1 :: "rat \<Rightarrow> rat" where
  "py_round1 x =
     (let y = x * 10; f = \<lfloor>y\<rfloor>; d = y - of_int f
      in of_int (if d < 1 / 2 then f
                 else if 1 / 2 < d then f + 1
                 else if even f then f else f + 1) / 10)"

section \<open>Flags\<close>

text \<open>
  A flag is a dictionary with the keys \<open>type\<close>, \<open>severity\<close>, \<open>description\<close> and
  \<open>evidence\<close>. Both credibility functions read the severity with
  \<open>flag.get("severity", "LOW")\<close>, so that key may be absent (\<open>None\<close>).
\<close>

datatype ev_val = EvInt int | EvStr string | EvStrs "string list"

record flag =
  flag_type :: string
  severity :: "string option"
  description :: string
  evidence :: "(string \<times> ev_val) list"

definition SEVERITY_LOW :: string where "SEVERITY_LOW = ''LOW''"
definition SEVERITY_MEDIUM :: string where "SEVERITY_MEDIUM = ''MEDIUM''"
definition SEVERITY_HIGH :: string where "SEVERITY_HIGH = ''HIGH''"

definition get_severity :: "flag \<Rightarrow> string" where
  "get_severity f = (case severity f of None \<Rightarrow> SEVERITY_LOW | Some s \<Rightarrow> s)"

section \<open>Validator.get\_credibility\_score\<close>

text \<open>The \<open>for flag in flags\<close> loop, with the running \<open>deductions\<close> as accumulator.\<close>

fun deductions_loop :: "rat \<Rightarrow> flag list \<Rightarrow> rat" where
  "deductions_loop deductions [] = deductions"
| "deductions_loop deductions (f # fs) =
     deductions_loop
       (if get_severity f = SEVERITY_HIGH then deductions + 3
        else if get_severity f = SEVERITY_MEDIUM then deductions + 3 / 2
        else deductions + 1 / 2) fs"

definition get_credibility_score :: "flag list \<Rightarrow> rat" where
  "get_credibility_score flags =
     (if flags = [] then 10
      else py_round1 (max 0 (10 - deductions_loop 0 flags)))"

section \<open>Scorer.\_calculate\_credibility\<close>

fun credibility_loop :: "rat \<Rightarrow> flag list \<Rightarrow> rat" where
  "credibility_loop score [] = score"
| "credibility_loop score (f # fs) =
     credibility_loop
       (if get_severity f = ''HIGH'' then score - 3
        else if get_severity f = ''MEDIUM'' then score - 3 / 2
        else score - 1 / 2) fs"

definition calculate_credibility :: "flag list option \<Rightarrow> rat" where
  "calculate_credibility validation_flags =
     (case validation_flags of
        None \<Rightarrow> 10
      | Some flags \<Rightarrow>
          if flags = [] then 10
          else max 0 (min 10 (credibility_loop 10 flags)))"

section \<open>Data model of the facts record and the external inputs\<close>

text \<open>
  The stages exchange dictionaries. A dictionary with a known set of keys is a record
  whose fields are optional: \<open>None\<close> says that the key is absent, so \<open>d.get(k, default)\<close>
  is a case distinction on the field. The field \<open>*_other_keys\<close> says whether the
  dictionary carries further keys that are never read here; it only matters for the
  truth value of the dictionary (\<open>if resume_data:\<close> is false for \<open>{}\<close>).
  Numbers (int or float) are rationals.
\<close>

record datetime =
  year :: int
  month :: int
  day :: int
  hour :: int
  minute :: int
  second :: int
  microsecond :: int

record contact_info =
  name :: "string option"
  email :: "string option"
  phone :: "string option"
  linkedin :: "string option"
  github :: "string option"
  location :: "string option"

text \<open>
  An experience entry. For \<open>title\<close> and \<open>company\<close>, \<open>None\<close> stands for an absent key as
  well as for the value \<open>None\<close>: the code reads them with \<open>exp.get("title")\<close> only.
\<close>

record experience_entry =
  raw_text :: "string option"
  dates :: "(string \<times> string) option"
  duration_months :: "int option"
  title :: "string option"
  company :: "string option"

record education_entry =
  degree_mention :: string
  section_text :: string

record skill_keyword =
  keyword :: string
  count :: nat

text \<open>The value of \<open>summary\<close> is itself optional: \<open>Some None\<close> is the key bound to \<open>None\<close>.\<close>

record resume_data =
  file_path :: "string option"
  parsed_at :: "datetime option"
  raw_text_length :: "nat option"
  contact :: "contact_info option"
  experience :: "experience_entry list option"
  education :: "education_entry list option"
  skills :: "string list option"
  certifications :: "string list option"
  summary :: "string option option"
  total_years_experience :: "rat option"
  skill_keywords :: "skill_keyword list option"
  rd_other_keys :: bool

record github_data =
  commits_12_months :: "rat option"
  public_repos :: "rat option"
  readme_complexity_score :: "rat option"
  contribution_streak :: "rat option"
  gd_other_keys :: bool

record semantic_analysis =
  technical_match_score :: "rat option"
  experience_relevance_score :: "rat option"
  key_matching_skills :: "string list option"
  missing_skills :: "string list option"
  sa_other_keys :: bool

text \<open>
  Truth value of an optional dictionary: \<open>None\<close> and the empty dictionary are false.
  Each function returns the dictionary when it is true.
\<close>

definition rd_truthy :: "resume_data option \<Rightarrow> resume_data option" where
  "rd_truthy d =
     (case d of
        None \<Rightarrow> None
      | Some r \<Rightarrow>
          if file_path r \<noteq> None \<or> parsed_at r \<noteq> None \<or> raw_text_length r \<noteq> None
             \<or> contact r \<noteq> None \<or> experience r \<noteq> None \<or> education r \<noteq> None
             \<or> skills r \<noteq> None \<or> certifications r \<noteq> None \<or> summary r \<noteq> None
             \<or> total_years_experience r \<noteq> None \<or> skill_keywords r \<noteq> None
             \<or> rd_other_keys r
          then Some r else None)"

definition gd_truthy :: "github_data option \<Rightarrow> github_data option" where
  "gd_truthy d =
     (case d of
        None \<Rightarrow> None
      | Some g \<Rightarrow>
          if commits_12_months g \<noteq> None \<or> public_repos g \<noteq> None
             \<or> readme_complexity_score g \<noteq> None \<or> contribution_streak g \<noteq> None
             \<or> gd_other_keys g
          then Some g else None)"

definition sa_truthy :: "semantic_analysis option \<Rightarrow> semantic_analysis option" where
  "sa_truthy d =
     (case d of
        None \<Rightarrow> None
      | Some a \<Rightarrow>
          if technical_match_score a \<noteq> None \<or> experience_relevance_score a \<noteq> None
             \<or> key_matching_skills a \<noteq> None \<or> missing_skills a \<noteq> None
             \<or> sa_other_keys a
          then Some a else None)"

definition get_or :: "'a option \<Rightarrow> 'a \<Rightarrow> 'a" where
  "get_or v dflt = (case v of None \<Rightarrow> dflt | Some x \<Rightarrow> x)"

section \<open>Scorer\<close>

definition WEIGHTS :: "(string \<times> rat) list" where
  "WEIGHTS =
     [(''technical_match'', 40 / 100),
      (''experience_depth'', 25 / 100),
      (''activity_score'', 20 / 100),
      (''credibility'', 15 / 100)]"

definition ACTIVITY_BENCHMARKS :: "(string \<times> rat) list" where
  "ACTIVITY_BENCHMARKS =
     [(''commits_excellent'', 500),
      (''commits_good'', 200),
      (''commits_fair'', 50),
      (''repos_excellent'', 30),
      (''repos_good'', 15),
      (''repos_fair'', 5)]"

text \<open>Subscripting a constant table with a key it holds.\<close>

definition lookup :: "(string \<times> 'a) list \<Rightarrow> string \<Rightarrow> 'a" where
  "lookup table k = the (map_of table k)"

definition calculate_technical_match ::
  "resume_data option \<Rightarrow> semantic_analysis option \<Rightarrow> rat" where
  "calculate_technical_match resume_data semantic_analysis =
     (let score =
        (case sa_truthy semantic_analysis of
           Some sa \<Rightarrow>
             (let ai_score = get_or (technical_match_score sa) 5;
                  score = ai_score;
                  matching = get_or (key_matching_skills sa) [];
                  missing = get_or (missing_skills sa) [];
                  score = (if 5 \<le> length matching then score + 1 / 2
                           else if 3 \<le> length matching then score + 1 / 4
                           else score);
                  score = (if 4 \<le> length missing then score - 1
                           else if 2 \<le> length missing then score - 1 / 2
                           else score)
              in score)
         | None \<Rightarrow>
             (case rd_truthy resume_data of
                Some rd \<Rightarrow>
                  (let keywords = get_or (skill_keywords rd) []
                   in if 15 \<le> length keywords then 8
                      else if 10 \<le> length keywords then 7
                      else if 5 \<le> length keywords then 6
                      else 5)
              | None \<Rightarrow> 5))
      in max 0 (min 10 score))"

definition calculate_experience_depth ::
  "resume_data option \<Rightarrow> semantic_analysis option \<Rightarrow> rat" where
  "calculate_experience_depth resume_data semantic_analysis =
     (let score =
        (case rd_truthy resume_data of
           Some rd \<Rightarrow>
             (let years = get_or (total_years_experience rd) 0;
                  score = (if 10 \<le> years then 9
                           else if 7 \<le> years then 8
                           else if 5 \<le> years then 7
                           else if 3 \<le> years then 6
                           else if 1 \<le> years then 5
                           else 4);
                  experience_count = length (get_or (experience rd) [])
              in if 4 \<le> experience_count then score + 1 / 2 else score)
         | None \<Rightarrow> 5);
          score =
            (case sa_truthy semantic_analysis of
               Some sa \<Rightarrow>
                 (let ai_relevance = get_or (experience_relevance_score sa) 5
                  in (score + ai_relevance) / 2)
             | None \<Rightarrow> score)
      in max 0 (min 10 score))"

definition calculate_activity_score :: "github_data option \<Rightarrow> rat" where
  "calculate_activity_score github_data =
     (case gd_truthy github_data of
        None \<Rightarrow> 5
      | Some gd \<Rightarrow>
          (let commits = get_or (commits_12_months gd) 0;
               commits_score =
                 (if lookup ACTIVITY_BENCHMARKS ''commits_excellent'' \<le> commits then 4
                  else if lookup ACTIVITY_BENCHMARKS ''commits_good'' \<le> commits then 3
                  else if lookup ACTIVITY_BENCHMARKS ''commits_fair'' \<le> commits then 2
                  else 1);
               repos = get_or (public_repos gd) 0;
               repos_score =
                 (if lookup ACTIVITY_BENCHMARKS ''repos_excellent'' \<le> repos then 3
                  else if lookup ACTIVITY_BENCHMARKS ''repos_good'' \<le> repos then 2
                  else if lookup ACTIVITY_BENCHMARKS ''repos_fair'' \<le> repos then 3 / 2
                  else 1);
               readme_score = get_or (readme_complexity_score gd) 5 / 5;
               streak = get_or (contribution_streak gd) 0;
               streak_score = min 1 (streak / 30);
               total = commits_score + repos_score + readme_score + streak_score
           in max 0 (min 10 total)))"

definition interpret_score :: "rat \<Rightarrow> (string \<times> string) list" where
  "interpret_score score =
     (if 85 / 10 \<le> score then
        [(''rating'', ''EXCELLENT''), (''recommendation'', ''STRONG_YES''),
         (''description'', ''Outstanding candidate with strong technical alignment'')]
      else if 7 \<le> score then
        [(''rating'', ''GOOD''), (''recommendation'', ''YES''),
         (''description'', ''Well-qualified candidate worth interviewing'')]
      else if 55 / 10 \<le> score then
        [(''rating'', ''FAIR''), (''recommendation'', ''MAYBE''),
         (''description'', ''Candidate has potential but may lack some requirements'')]
      else if 4 \<le> score then
        [(''rating'', ''BELOW_AVERAGE''), (''recommendation'', ''PROBABLY_NO''),
         (''description'', ''Significant gaps in qualifications for this role'')]
      else
        [(''rating'', ''POOR''), (''recommendation'', ''NO''),
         (''description'', ''Candidate does not meet minimum requirements'')])"

record score_breakdown =
  total_score :: rat
  breakdown :: "(string \<times> rat) list"
  weights :: "(string \<times> rat) list"
  score_interpretation :: "(string \<times> string) list"

definition calculate_score ::
  "github_data option \<Rightarrow> resume_data option \<Rightarrow> semantic_analysis option
     \<Rightarrow> flag list option \<Rightarrow> score_breakdown" where
  "calculate_score github_data resume_data semantic_analysis validation_flags =
     (let technical_score = calculate_technical_match resume_data semantic_analysis;
          experience_score = calculate_experience_depth resume_data semantic_analysis;
          activity_score = calculate_activity_score github_data;
          credibility_score = calculate_credibility validation_flags;
          total_score =
            technical_score * lookup WEIGHTS ''technical_match''
            + experience_score * lookup WEIGHTS ''experience_depth''
            + activity_score * lookup WEIGHTS ''activity_score''
            + credibility_score * lookup WEIGHTS ''credibility'';
          total_score = py_round1 total_score
      in \<lparr>total_score = total_score,
          breakdown =
            [(''technical_match'', py_round1 technical_score),
             (''experience_depth'', py_round1 experience_score),
             (''activity_score'', py_round1 activity_score),
             (''credibility'', py_round1 credibility_score)],
          weights = WEIGHTS,
          score_interpretation = interpret_score total_score\<rparr>)"

section \<open>Strings\<close>

text \<open>
  Text is ASCII: a string is a list of 8-bit characters, and the character classes
  \<open>\s\<close>, \<open>\d\<close>, \<open>\w\<close> and \<open>str.lower()\<close> are the ASCII parts of the ones the interpreter
  uses. The en dash of the date patterns and the bullet of the split patterns lie
  outside ASCII and so never occur in a text.
\<close>

definition is_space :: "char \<Rightarrow> bool" where
  "is_space c = (c \<in> set [CHR '' '', CHR 0x09, CHR 0x0A, CHR 0x0B, CHR 0x0C, CHR 0x0D,
                           CHR 0x1C, CHR 0x1D, CHR 0x1E, CHR 0x1F])"

definition is_digit :: "char \<Rightarrow> bool" where
  "is_digit c = (c \<in> set ''0123456789'')"

definition is_lower :: "char \<Rightarrow> bool" where
  "is_lower c = (c \<in> set ''abcdefghijklmnopqrstuvwxyz'')"

definition is_upper :: "char \<Rightarrow> bool" where
  "is_upper c = (c \<in> set ''ABCDEFGHIJKLMNOPQRSTUVWXYZ'')"

definition is_alpha :: "char \<Rightarrow> bool" where
  "is_alpha c = (is_lower c \<or> is_upper c)"

definition is_word :: "char \<Rightarrow> bool" where
  "is_word c = (is_alpha c \<or> is_digit c \<or> c = CHR ''_'')"

definition lower_char :: "char \<Rightarrow> char" where
  "lower_char c =
     (case map_of (zip ''ABCDEFGHIJKLMNOPQRSTUVWXYZ'' ''abcdefghijklmnopqrstuvwxyz'') c of
        None \<Rightarrow> c | Some l \<Rightarrow> l)"

definition upper_char :: "char \<Rightarrow> char" where
  "upper_char c =
     (case map_of (zip ''abcdefghijklmnopqrstuvwxyz'' ''ABCDEFGHIJKLMNOPQRSTUVWXYZ'') c of
        None \<Rightarrow> c | Some u \<Rightarrow> u)"

definition lower :: "string \<Rightarrow> string" where
  "lower s = map lower_char s"

definition one_of :: "string \<Rightarrow> char \<Rightarrow> bool" where
  "one_of cs c = (c \<in> set cs)"

text \<open>Under \<open>re.IGNORECASE\<close> a literal character matches itself and its other case.\<close>

definition both_cases :: "char \<Rightarrow> string" where
  "both_cases a = [lower_char a, upper_char a]"

definition strip :: "string \<Rightarrow> string" where
  "strip s = rev (dropWhile is_space (rev (dropWhile is_space s)))"

section \<open>Regular expressions\<close>

text \<open>
  The patterns of the program use literals, character classes, greedy repetition of a
  character class, alternatives, optional parts, capture groups and the word boundary
  \<open>\b\<close>. A pattern is a value of \<open>rx\<close>: \<open>Set p\<close> is one character of the class \<open>p\<close>,
  \<open>Rep lo hi p\<close> is \<open>p{lo,hi}\<close> (\<open>hi = None\<close> for no upper bound), \<open>Grp n r\<close> is the
  \<open>n\<close>-th capture group and \<open>Bnd\<close> is \<open>\b\<close>.
\<close>

datatype rx =
    Set "char \<Rightarrow> bool"
  | Eps
  | Seq rx rx
  | Alt rx rx
  | Rep nat "nat option" "char \<Rightarrow> bool"
  | Grp nat rx
  | Bnd

type_synonym caps = "(nat \<times> string) list"

definition at_boundary :: "char option \<Rightarrow> string \<Rightarrow> bool" where
  "at_boundary prev s =
     ((case prev of None \<Rightarrow> False | Some c \<Rightarrow> is_word c)
        \<noteq> (case s of [] \<Rightarrow> False | c # _ \<Rightarrow> is_word c))"

definition last_of :: "char option \<Rightarrow> string \<Rightarrow> char option" where
  "last_of prev consumed = (if consumed = [] then prev else Some (last consumed))"

text \<open>
  \<open>rx_runs r prev s c\<close> lists the ways in which \<open>r\<close> matches a prefix of \<open>s\<close>, in the order
  in which a backtracking matcher tries them: the left alternative before the right
  one, the longest repetition first. Each way gives the rest of the text, the
  character before it (\<open>prev\<close> is the character before \<open>s\<close>, needed for \<open>\b\<close>) and the
  captured groups. The match that \<open>re\<close> reports at a position is the first of the list.
\<close>

fun rx_runs :: "rx \<Rightarrow> char option \<Rightarrow> string \<Rightarrow> caps \<Rightarrow> (char option \<times> string \<times> caps) list" where
  "rx_runs (Set p) prev [] c = []"
| "rx_runs (Set p) prev (x # xs) c = (if p x then [(Some x, xs, c)] else [])"
| "rx_runs Eps prev s c = [(prev, s, c)]"
| "rx_runs (Seq a b) prev s c = concat (map (\<lambda>(p', s', c'). rx_runs b p' s' c') (rx_runs a prev s c))"
| "rx_runs (Alt a b) prev s c = rx_runs a prev s c @ rx_runs b prev s c"
| "rx_runs (Rep lo hi p) prev s c =
     (let run = length (takeWhile p s);
          m = (case hi of None \<Rightarrow> run | Some h \<Rightarrow> min h run)
      in map (\<lambda>j. (last_of prev (take j s), drop j s, c)) (rev [lo ..< Suc m]))"
| "rx_runs (Grp n r) prev s c =
     map (\<lambda>(p', s', c'). (p', s', c' @ [(n, take (length s - length s') s)])) (rx_runs r prev s c)"
| "rx_runs Bnd prev s c = (if at_boundary prev s then [(prev, s, c)] else [])"

definition lit :: "string \<Rightarrow> rx" where
  "lit s = foldr (\<lambda>ch r. Seq (Set (\<lambda>x. x = ch)) r) s Eps"

definition liti :: "string \<Rightarrow> rx" where
  "liti s = foldr (\<lambda>ch r. Seq (Set (one_of (both_cases ch))) r) s Eps"

definition seqs :: "rx list \<Rightarrow> rx" where
  "seqs rs = foldr Seq rs Eps"

fun alts :: "rx list \<Rightarrow> rx" where
  "alts [] = Set (\<lambda>x. False)"
| "alts [r] = r"
| "alts (r # rs) = Alt r (alts rs)"

record rmatch =
  m_start :: nat
  m_end :: nat
  m_groups :: caps

definition group :: "rmatch \<Rightarrow> nat \<Rightarrow> string" where
  "group m n = (case map_of (m_groups m) n of None \<Rightarrow> [] | Some g \<Rightarrow> g)"

text \<open>
  \<open>re.search\<close> takes the first position at which the pattern matches; \<open>search_from\<close>
  walks the text with the index \<open>i\<close> of the current position.
\<close>

fun search_from :: "rx \<Rightarrow> char option \<Rightarrow> nat \<Rightarrow> string \<Rightarrow> rmatch option" where
  "search_from r prev i [] =
     (case rx_runs r prev [] [] of
        [] \<Rightarrow> None
      | (p', s', c) # _ \<Rightarrow> Some \<lparr>m_start = i, m_end = i, m_groups = c\<rparr>)"
| "search_from r prev i (x # xs) =
     (case rx_runs r prev (x # xs) [] of
        [] \<Rightarrow> search_from r (Some x) (Suc i) xs
      | (p', s', c) # _ \<Rightarrow>
          Some \<lparr>m_start = i, m_end = i + (length (x # xs) - length s'), m_groups = c\<rparr>)"

definition re_search :: "rx \<Rightarrow> string \<Rightarrow> rmatch option" where
  "re_search r s = search_from r None 0 s"

text \<open>
  \<open>re.finditer\<close> continues after the end of each match. Every pattern that the program
  passes to \<open>finditer\<close>, \<open>findall\<close> or \<open>split\<close> consumes at least one character, so the
  next search always starts further right; the guard states that.
\<close>

function finditer_from :: "rx \<Rightarrow> char option \<Rightarrow> nat \<Rightarrow> string \<Rightarrow> rmatch list" where
  "finditer_from r prev i s =
     (case search_from r prev i s of
        None \<Rightarrow> []
      | Some m \<Rightarrow>
          m # (if i < m_end m \<and> m_end m \<le> i + length s
               then finditer_from r (last_of prev (take (m_end m - i) s)) (m_end m)
                      (drop (m_end m - i) s)
               else []))"
  by pat_completeness auto
termination
  by (relation "measure (\<lambda>(r, prev, i, s). length s)") auto

declare finditer_from.simps [simp del]

definition finditer :: "rx \<Rightarrow> string \<Rightarrow> rmatch list" where
  "finditer r s = finditer_from r None 0 s"


definition findall2 :: "rx \<Rightarrow> string \<Rightarrow> (string \<times> string) list" where
  "findall2 r s = map (\<lambda>m. (group m 1, group m 2)) (finditer r s)"

definition findall1 :: "rx \<Rightarrow> string \<Rightarrow> string list" where
  "findall1 r s = map (\<lambda>m. group m 1) (finditer r s)"

definition slice :: "string \<Rightarrow> nat \<Rightarrow> nat \<Rightarrow> string" where
  "slice s a b = take (b - a) (drop a s)"

fun pieces :: "string \<Rightarrow> nat \<Rightarrow> rmatch list \<Rightarrow> string list" where
  "pieces s i [] = [drop i s]"
| "pieces s i (m # rest) = slice s i (m_start m) # pieces s (m_end m) rest"

definition re_split :: "rx \<Rightarrow> string \<Rightarrow> string list" where
  "re_split r s = pieces s 0 (finditer r s)"

fun split_where :: "(char \<Rightarrow> bool) \<Rightarrow> string \<Rightarrow> string list" where
  "split_where p [] = [[]]"
| "split_where p (x # xs) =
     (if p x then [] # split_where p xs
      else (case split_where p xs of [] \<Rightarrow> [[x]] | w # ws \<Rightarrow> (x # w) # ws))"

definition split_on :: "char \<Rightarrow> string \<Rightarrow> string list" where
  "split_on sep s = split_where (\<lambda>c. c = sep) s"

definition split_ws :: "string \<Rightarrow> string list" where
  "split_ws s = filter (\<lambda>w. w \<noteq> []) (split_where is_space s)"

fun contains :: "string \<Rightarrow> string \<Rightarrow> bool" where
  "contains sub [] = (sub = [])"
| "contains sub (x # xs) = (take (length sub) (x # xs) = sub \<or> contains sub xs)"

text \<open>
  \<open>int(s)\<close> on the strings the patterns capture: a non-empty string of digits gives its
  value, anything else is a \<open>ValueError\<close> (\<open>None\<close>).
\<close>

definition digit_val :: "char \<Rightarrow> int option" where
  "digit_val c = map_of (zip ''0123456789'' [0, 1, 2, 3, 4, 5, 6, 7, 8, 9]) c"

fun int_digits :: "int \<Rightarrow> string \<Rightarrow> int option" where
  "int_digits acc [] = Some acc"
| "int_digits acc (c # cs) =
     (case digit_val c of None \<Rightarrow> None | Some d \<Rightarrow> int_digits (10 * acc + d) cs)"

definition py_int :: "string \<Rightarrow> int option" where
  "py_int s = (if s = [] then None else int_digits 0 s)"

definition isdigit :: "string \<Rightarrow> bool" where
  "isdigit s = (s \<noteq> [] \<and> list_all is_digit s)"

subsection \<open>Capture groups of a pattern\<close>

text \<open>
  The capture groups of a pattern, in order, when each of them encloses a repetition of
  at least one character of a class and none of them lies inside an alternative.
\<close>

fun capture_spine :: "rx \<Rightarrow> (nat \<times> (char \<Rightarrow> bool)) list option" where
  "capture_spine (Grp n (Rep lo hi q)) = (if 1 \<le> lo then Some [(n, q)] else None)"
| "capture_spine (Grp n r) = None"
| "capture_spine (Seq a b) =
     (case capture_spine a of
        None \<Rightarrow> None
      | Some x \<Rightarrow> (case capture_spine b of None \<Rightarrow> None | Some y \<Rightarrow> Some (x @ y)))"
| "capture_spine (Alt a b) =
     (if capture_spine a = Some [] \<and> capture_spine b = Some [] then Some [] else None)"
| "capture_spine r = Some []"

definition captured :: "(nat \<times> (char \<Rightarrow> bool)) \<Rightarrow> (nat \<times> string) \<Rightarrow> bool" where
  "captured spec cap = (fst cap = fst spec \<and> snd cap \<noteq> [] \<and> list_all (snd spec) (snd cap))"

text \<open>The least number of characters that a match of a pattern consumes.\<close>

fun min_len :: "rx \<Rightarrow> nat" where
  "min_len (Set p) = 1"
| "min_len Eps = 0"
| "min_len (Seq a b) = min_len a + min_len b"
| "min_len (Alt a b) = min (min_len a) (min_len b)"
| "min_len (Rep lo hi p) = lo"
| "min_len (Grp n r) = min_len r"
| "min_len Bnd = 0"

section \<open>ResumeParser\<close>

subsection \<open>Pattern building blocks\<close>

definition ch :: "char \<Rightarrow> char \<Rightarrow> bool" where
  "ch a c = (c = a)"

definition chi :: "char \<Rightarrow> char \<Rightarrow> bool" where
  "chi a = one_of (both_cases a)"

definition opt :: "rx \<Rightarrow> rx" where
  "opt r = Alt r Eps"

definition star :: "(char \<Rightarrow> bool) \<Rightarrow> rx" where
  "star p = Rep 0 None p"

definition plus :: "(char \<Rightarrow> bool) \<Rightarrow> rx" where
  "plus p = Rep 1 None p"

definition maybe :: "(char \<Rightarrow> bool) \<Rightarrow> rx" where
  "maybe p = Rep 0 (Some 1) p"

definition times :: "nat \<Rightarrow> nat \<Rightarrow> (char \<Rightarrow> bool) \<Rightarrow> rx" where
  "times lo hi p = Rep lo (Some hi) p"

subsection \<open>datetime.strptime for the four formats of \_parse\_date\<close>

text \<open>
  \<open>strptime\<close> turns a format into a pattern, matches it at the start of the string
  ignoring case, and fails unless the match covers the whole string. The year has four
  digits and must be at least 1; the day is 1 and the time is midnight.
\<close>

definition month_names :: "string list" where
  "month_names =
     [''january'', ''february'', ''march'', ''april'', ''may'', ''june'', ''july'',
      ''august'', ''september'', ''october'', ''november'', ''december'']"

definition month_abbrs :: "string list" where
  "month_abbrs =
     [''jan'', ''feb'', ''mar'', ''apr'', ''may'', ''jun'', ''jul'', ''aug'', ''sep'',
      ''oct'', ''nov'', ''dec'']"

fun index_of :: "string \<Rightarrow> string list \<Rightarrow> nat option" where
  "index_of x [] = None"
| "index_of x (y # ys) =
     (if x = y then Some 0 else map_option Suc (index_of x ys))"

definition month_by_name :: "string list \<Rightarrow> string \<Rightarrow> int option" where
  "month_by_name names g = map_option (\<lambda>i. int i + 1) (index_of (lower g) names)"

definition directive_Y :: rx where
  "directive_Y = Grp 2 (seqs [Set is_digit, Set is_digit, Set is_digit, Set is_digit])"

definition directive_B :: rx where
  "directive_B =
     Grp 1 (alts (map liti
       [''september'', ''february'', ''november'', ''december'', ''january'', ''october'',
        ''august'', ''march'', ''april'', ''june'', ''july'', ''may'']))"

definition directive_b :: rx where
  "directive_b = Grp 1 (alts (map liti month_abbrs))"

definition directive_m :: rx where
  "directive_m =
     Grp 1 (alts [Seq (Set (ch CHR ''1'')) (Set (one_of ''012'')),
                  Seq (Set (ch CHR ''0'')) (Set (one_of ''123456789'')),
                  Set (one_of ''123456789'')])"

definition format_table :: "(string \<times> rx \<times> (string \<Rightarrow> int option)) list" where
  "format_table =
     [(''%B %Y'', seqs [directive_B, plus is_space, directive_Y], month_by_name month_names),
      (''%b %Y'', seqs [directive_b, plus is_space, directive_Y], month_by_name month_abbrs),
      (''%m/%Y'', seqs [directive_m, Set (ch CHR ''/''), directive_Y], py_int),
      (''%Y'', directive_Y, \<lambda>g. Some 1)]"

definition caps_get :: "caps \<Rightarrow> nat \<Rightarrow> string" where
  "caps_get c n = (case map_of c n of None \<Rightarrow> [] | Some g \<Rightarrow> g)"

definition strptime :: "string \<Rightarrow> string \<Rightarrow> datetime option" where
  "strptime date_string fmt =
     (case map_of format_table fmt of
        None \<Rightarrow> None
      | Some (r, month_of) \<Rightarrow>
          (case rx_runs r None date_string [] of
             [] \<Rightarrow> None
           | (p', rest, c) # _ \<Rightarrow>
               if rest \<noteq> [] then None
               else (case (py_int (caps_get c 2), month_of (caps_get c 1)) of
                       (Some y, Some m) \<Rightarrow>
                         if y < 1 then None
                         else Some \<lparr>year = y, month = m, day = 1, hour = 0, minute = 0,
                                    second = 0, microsecond = 0\<rparr>
                     | _ \<Rightarrow> None)))"

fun try_formats :: "string \<Rightarrow> string list \<Rightarrow> datetime option" where
  "try_formats date_str [] = None"
| "try_formats date_str (fmt # fmts) =
     (case strptime date_str fmt of
        Some d \<Rightarrow> Some d
      | None \<Rightarrow> try_formats date_str fmts)"

definition parse_date :: "datetime \<Rightarrow> string \<Rightarrow> datetime" where
  "parse_date now date_str =
     (let date_str = strip date_str;
          formats = [''%B %Y'', ''%b %Y'', ''%m/%Y'', ''%Y'']
      in case try_formats date_str formats of
           Some d \<Rightarrow> d
         | None \<Rightarrow> now)"

text \<open>
  \<open>now\<close> is the reading of \<open>datetime.now()\<close>; one run of the parser is taken to see one
  reading. Both arguments are strings captured by a date pattern, on which
  \<open>_parse_date\<close> and \<open>lower\<close> cannot raise, so the \<open>except\<close> branch is never taken.
\<close>

definition calculate_duration :: "datetime \<Rightarrow> string \<Rightarrow> string \<Rightarrow> int" where
  "calculate_duration now start end =
     (let start_date = parse_date now start;
          end_date = (if lower end \<in> set [''present'', ''current'', ''now''] then now
                      else parse_date now end);
          months = (year end_date - year start_date) * 12;
          months = months + (month end_date - month start_date)
      in max 0 months)"


subsection \<open>Section isolation\<close>

text \<open>
  Each section pattern carries the inline flag \<open>(?i)\<close>, and the pattern for the next
  header joins all six with \<open>|\<close>. The model is that of Python up to 3.10, where a flag
  in the middle of an expression applies to the whole expression; from Python 3.11 on
  compiling the joined pattern raises \<open>re.error\<close>, so that \<open>_extract_section\<close> fails
  whenever its header is found.
\<close>

definition SECTION_PATTERNS :: "(string \<times> rx) list" where
  "SECTION_PATTERNS =
     [(''experience'',
         Grp 1 (alts [seqs [liti ''work'', star is_space, liti ''experience''],
                      seqs [liti ''professional'', star is_space, liti ''experience''],
                      liti ''employment'',
                      seqs [liti ''work'', star is_space, liti ''history''],
                      liti ''experience''])),
      (''education'',
         Grp 1 (alts [liti ''education'', liti ''academic'', liti ''qualifications'',
                      liti ''degrees''])),
      (''skills'',
         Grp 1 (alts [liti ''skills'',
                      seqs [liti ''technical'', star is_space, liti ''skills''],
                      liti ''technologies'', liti ''competencies'', liti ''expertise''])),
      (''certifications'',
         Grp 1 (alts [seqs [liti ''certification'', maybe (chi CHR ''s'')],
                      seqs [liti ''certificate'', maybe (chi CHR ''s'')],
                      seqs [liti ''license'', maybe (chi CHR ''s'')],
                      liti ''credentials''])),
      (''projects'',
         Grp 1 (alts [liti ''projects'',
                      seqs [liti ''personal'', star is_space, liti ''projects''],
                      liti ''portfolio''])),
      (''summary'',
         Grp 1 (alts [liti ''summary'', liti ''profile'', liti ''objective'',
                      seqs [liti ''about'', star is_space, liti ''me'']]))]"

definition extract_section :: "string \<Rightarrow> string \<Rightarrow> string option" where
  "extract_section text section_name =
     (case map_of SECTION_PATTERNS section_name of
        None \<Rightarrow> None
      | Some pattern \<Rightarrow>
          (case re_search pattern text of
             None \<Rightarrow> None
           | Some m \<Rightarrow>
               (let start = m_end m;
                    all_patterns = alts (map snd SECTION_PATTERNS);
                    next_section = re_search all_patterns (drop start text);
                    end = (case next_section of
                             Some n \<Rightarrow> start + m_start n
                           | None \<Rightarrow> min (start + 2000) (length text))
                in Some (strip (slice text start end)))))"

subsection \<open>Experience extraction\<close>

definition date_end_words :: "rx list" where
  "date_end_words = [liti ''present'', liti ''current'', liti ''now'']"

definition month_year :: rx where
  "month_year = seqs [plus is_word, plus is_space, times 4 4 is_digit]"

definition slash_date :: rx where
  "slash_date = seqs [times 1 2 is_digit, Set (ch CHR ''/''), times 4 4 is_digit]"

definition dash :: rx where
  "dash = seqs [star is_space, Set (ch CHR ''-''), star is_space]"

definition DATE_PATTERNS :: "rx list" where
  "DATE_PATTERNS =
     [seqs [Grp 1 month_year, dash, Grp 2 (alts (month_year # date_end_words))],
      seqs [Grp 1 slash_date, dash, Grp 2 (alts (slash_date # date_end_words))],
      seqs [Grp 1 (times 4 4 is_digit), dash,
            Grp 2 (alts (times 4 4 is_digit # date_end_words))]]"

definition make_entry ::
  "datetime \<Rightarrow> string \<Rightarrow> rmatch \<Rightarrow> rmatch option \<Rightarrow> experience_entry" where
  "make_entry now exp_section m next_match =
     (let start = nat (max 0 (int (m_start m) - 200));
          end = (case next_match of Some n \<Rightarrow> m_start n | None \<Rightarrow> m_end m + 500);
          entry_text = slice exp_section start end
      in \<lparr>raw_text = Some (take 300 entry_text),
          dates = Some (group m 1, group m 2),
          duration_months = Some (calculate_duration now (group m 1) (group m 2)),
          title = None,
          company = None\<rparr>)"

fun entries :: "datetime \<Rightarrow> string \<Rightarrow> rmatch list \<Rightarrow> experience_entry list" where
  "entries now exp_section [] = []"
| "entries now exp_section [m] = [make_entry now exp_section m None]"
| "entries now exp_section (m # n # rest) =
     make_entry now exp_section m (Some n) # entries now exp_section (n # rest)"

fun experience_loop :: "datetime \<Rightarrow> string \<Rightarrow> rx list \<Rightarrow> experience_entry list" where
  "experience_loop now exp_section [] = []"
| "experience_loop now exp_section (pattern # patterns) =
     (let matches = finditer pattern exp_section
      in if matches \<noteq> [] then entries now exp_section matches
         else experience_loop now exp_section patterns)"

definition extract_experience :: "datetime \<Rightarrow> string \<Rightarrow> experience_entry list" where
  "extract_experience now text =
     (case extract_section text ''experience'' of
        None \<Rightarrow> []
      | Some exp_section \<Rightarrow>
          if exp_section = [] then []
          else take 10 (experience_loop now exp_section DATE_PATTERNS))"

definition calculate_total_experience :: "experience_entry list \<Rightarrow> rat" where
  "calculate_total_experience experiences =
     (let total_months = sum_list (map (\<lambda>exp. get_or (duration_months exp) 0) experiences)
      in py_round1 (of_int total_months / 12))"

subsection \<open>Contact extraction\<close>

definition EMAIL_PATTERN :: rx where
  "EMAIL_PATTERN =
     seqs [plus (\<lambda>c. is_alpha c \<or> is_digit c \<or> one_of ''._%+-'' c),
           Set (ch CHR ''@''),
           plus (\<lambda>c. is_alpha c \<or> is_digit c \<or> one_of ''.-'' c),
           Set (ch CHR ''.''),
           Rep 2 None is_alpha]"

definition phone_sep :: "char \<Rightarrow> bool" where
  "phone_sep c = (c = CHR ''-'' \<or> is_space c \<or> c = CHR ''.'')"

definition PHONE_PATTERN :: rx where
  "PHONE_PATTERN =
     seqs [maybe (ch CHR ''+''), maybe (ch CHR ''(''), times 1 3 is_digit,
           maybe (ch CHR '')''), maybe phone_sep, maybe (ch CHR ''(''),
           times 1 4 is_digit, maybe (ch CHR '')''), maybe phone_sep,
           times 1 4 is_digit, maybe phone_sep, times 1 9 is_digit]"

definition handle_char :: "char \<Rightarrow> bool" where
  "handle_char c = (is_alpha c \<or> is_digit c \<or> c = CHR ''-'')"

definition linkedin_pattern :: rx where
  "linkedin_pattern = seqs [liti ''linkedin.com/in/'', Grp 1 (plus handle_char)]"

definition github_pattern :: rx where
  "github_pattern = seqs [liti ''github.com/'', Grp 1 (plus handle_char)]"

text \<open>
  The pattern \<open>[@|www\.|http|\.com]\<close> of the name loop is a character class: it matches
  any one of the characters \<open>@ | w . h t p c o m\<close>.
\<close>

definition contact_like :: rx where
  "contact_like = Set (one_of ''@|www.|http|.com'')"

fun name_loop :: "string list \<Rightarrow> string option" where
  "name_loop [] = None"
| "name_loop (line # lines) =
     (let line = strip line
      in if line \<noteq> [] \<and> re_search contact_like line = None
         then (if length (split_ws line) \<le> 4 then Some line else name_loop lines)
         else name_loop lines)"

definition extract_name :: "string \<Rightarrow> string option" where
  "extract_name text =
     (let lines = split_on CHR 0x0A (strip text)
      in name_loop (take 5 lines))"

definition extract_contact :: "string \<Rightarrow> contact_info" where
  "extract_contact text =
     \<lparr>name = extract_name text,
      email = (case re_search EMAIL_PATTERN text of
                 None \<Rightarrow> None
               | Some m \<Rightarrow> Some (slice text (m_start m) (m_end m))),
      phone = (case re_search PHONE_PATTERN text of
                 None \<Rightarrow> None
               | Some m \<Rightarrow>
                   (let phone = slice text (m_start m) (m_end m)
                    in if 10 \<le> length (filter is_digit phone) then Some phone else None)),
      linkedin = (case re_search linkedin_pattern text of
                    None \<Rightarrow> None
                  | Some m \<Rightarrow> Some (''https://linkedin.com/in/'' @ group m 1)),
      github = (case re_search github_pattern text of
                  None \<Rightarrow> None
                | Some m \<Rightarrow> Some (''https://github.com/'' @ group m 1)),
      location = None\<rparr>"

subsection \<open>Education, skills, certifications, summary, skill keywords\<close>

definition degree_patterns :: "rx list" where
  "degree_patterns =
     [Grp 1 (alts (map liti [''bachelor'', ''master'', ''phd'', ''doctor'', ''associate'',
                             ''b.s.'', ''m.s.'', ''b.a.'', ''m.a.'', ''mba''])),
      Grp 1 (alts (map liti [''computer science'', ''engineering'', ''business'',
                             ''data science'', ''information technology'']))]"

definition extract_education :: "string \<Rightarrow> education_entry list" where
  "extract_education text =
     (case extract_section text ''education'' of
        None \<Rightarrow> []
      | Some edu_section \<Rightarrow>
          if edu_section = [] then []
          else concat (map (\<lambda>pattern.
                 map (\<lambda>mention. \<lparr>degree_mention = mention,
                                  section_text = take 500 edu_section\<rparr>)
                     (findall1 pattern edu_section)) degree_patterns))"

definition extract_skills :: "string \<Rightarrow> string list" where
  "extract_skills text =
     (case extract_section text ''skills'' of
        None \<Rightarrow> []
      | Some skills_section \<Rightarrow>
          if skills_section = [] then []
          else (let skills = re_split (Set (one_of ('',|'' @ [CHR 0x0A] @ '';''))) skills_section;
                    cleaned = filter (\<lambda>skill. skill \<noteq> [] \<and> 1 < length skill
                                               \<and> length skill < 50)
                                (map strip skills)
                in take 30 cleaned))"

definition extract_certifications :: "string \<Rightarrow> string list" where
  "extract_certifications text =
     (case extract_section text ''certifications'' of
        None \<Rightarrow> []
      | Some cert_section \<Rightarrow>
          if cert_section = [] then []
          else (let certs = re_split (Set (ch CHR 0x0A)) cert_section;
                    cleaned = filter (\<lambda>cert. cert \<noteq> [] \<and> 5 < length cert) (map strip certs)
                in take 10 cleaned))"

definition extract_summary :: "string \<Rightarrow> string option" where
  "extract_summary text =
     (case extract_section text ''summary'' of
        None \<Rightarrow> None
      | Some s \<Rightarrow> if s \<noteq> [] then Some (take 1000 s) else None)"

definition TECH_KEYWORDS :: "string list" where
  "TECH_KEYWORDS =
     [''python'', ''javascript'', ''typescript'', ''java'', ''c++'', ''c#'', ''go'', ''golang'',
      ''rust'', ''ruby'', ''php'', ''swift'', ''kotlin'', ''scala'', ''r'', ''matlab'',
      ''react'', ''angular'', ''vue'', ''svelte'', ''next.js'', ''nuxt'', ''html'', ''css'',
      ''sass'', ''tailwind'', ''bootstrap'', ''jquery'',
      ''node.js'', ''express'', ''fastapi'', ''django'', ''flask'', ''spring'', ''rails'',
      ''.net'', ''asp.net'', ''laravel'', ''nestjs'',
      ''sql'', ''postgresql'', ''mysql'', ''mongodb'', ''redis'', ''elasticsearch'',
      ''snowflake'', ''bigquery'', ''spark'', ''hadoop'', ''kafka'',
      ''aws'', ''azure'', ''gcp'', ''google cloud'', ''docker'', ''kubernetes'', ''terraform'',
      ''jenkins'', ''github actions'', ''ci/cd'',
      ''tensorflow'', ''pytorch'', ''scikit-learn'', ''pandas'', ''numpy'', ''keras'',
      ''machine learning'', ''deep learning'', ''nlp'', ''computer vision'']"

definition keyword_count :: "string \<Rightarrow> string \<Rightarrow> nat" where
  "keyword_count text_lower kw = length (finditer (seqs [Bnd, lit kw, Bnd]) text_lower)"

definition extract_skill_keywords :: "string \<Rightarrow> skill_keyword list" where
  "extract_skill_keywords text =
     (let text_lower = lower text;
          keywords = concat (map (\<lambda>kw. let n = keyword_count text_lower kw
                                        in if 0 < n then [\<lparr>keyword = kw, count = n\<rparr>] else [])
                              TECH_KEYWORDS)
      in sort_key (\<lambda>k. - int (count k)) keywords)"

subsection \<open>ResumeParser.parse\<close>

text \<open>
  \<open>parse\<close> from the point where the text of the document has been read: \<open>path\<close> is the
  path of the file, \<open>text\<close> its text, \<open>now\<close> the local clock and \<open>utcnow\<close> the clock read
  for the timestamp (kept as a date and time rather than as its ISO rendering).
\<close>

definition parse :: "string \<Rightarrow> string \<Rightarrow> datetime \<Rightarrow> datetime \<Rightarrow> resume_data" where
  "parse path text now utcnow =
     (let exps = extract_experience now text
      in \<lparr>file_path = Some path,
          parsed_at = Some utcnow,
          raw_text_length = Some (length text),
          contact = Some (extract_contact text),
          experience = Some exps,
          education = Some (extract_education text),
          skills = Some (extract_skills text),
          certifications = Some (extract_certifications text),
          summary = Some (extract_summary text),
          total_years_experience = Some (calculate_total_experience exps),
          skill_keywords = Some (extract_skill_keywords text),
          rd_other_keys = False\<rparr>)"

section \<open>Validator\<close>

subsection \<open>Rendering integers in descriptions\<close>

definition digit_char :: "nat \<Rightarrow> char" where
  "digit_char n = ''0123456789'' ! (n mod 10)"

function str_nat :: "nat \<Rightarrow> string" where
  "str_nat n = (if n < 10 then [digit_char n] else str_nat (n div 10) @ [digit_char n])"
  by pat_completeness auto
termination
  by (relation "measure id") auto

definition str_int :: "int \<Rightarrow> string" where
  "str_int i = (if i < 0 then ''-'' @ str_nat (nat (- i)) else str_nat (nat i))"

subsection \<open>Validator.\_validate\_experience\_claims\<close>

definition TECH_RELEASE_DATES :: "(string \<times> int) list" where
  "TECH_RELEASE_DATES =
     [(''react'', 2013), (''react native'', 2015), (''vue'', 2014), (''vue.js'', 2014),
      (''angular'', 2016), (''svelte'', 2016), (''next.js'', 2016), (''tailwind'', 2017),
      (''tailwindcss'', 2017),
      (''fastapi'', 2018), (''nestjs'', 2017), (''deno'', 2018),
      (''kubernetes'', 2014), (''terraform'', 2014), (''github actions'', 2019),
      (''docker'', 2013), (''aws lambda'', 2014),
      (''pytorch'', 2016), (''tensorflow'', 2015), (''gpt'', 2018), (''langchain'', 2022),
      (''openai api'', 2020), (''llm'', 2020),
      (''rust'', 2010), (''go'', 2009), (''golang'', 2009), (''kotlin'', 2011),
      (''swift'', 2014), (''typescript'', 2012),
      (''snowflake'', 2014), (''cockroachdb'', 2015), (''planetscale'', 2018)]"

definition tech_char :: "char \<Rightarrow> bool" where
  "tech_char c = (is_alpha c \<or> is_space c \<or> c = CHR ''.'' \<or> c = CHR ''-'')"

definition years_word :: rx where
  "years_word = seqs [maybe (ch CHR ''+''), star is_space, lit ''year'', maybe (ch CHR ''s'')]"

definition claim_patterns :: "rx list" where
  "claim_patterns =
     [seqs [Grp 1 (plus is_digit), years_word, plus is_space,
            opt (seqs [lit ''of'', plus is_space]),
            opt (seqs [lit ''experience'', plus is_space]),
            alts [lit ''with'', lit ''in'', lit ''using''], plus is_space,
            Grp 2 (plus tech_char)],
      seqs [Grp 1 (plus tech_char), plus is_space, lit ''expert'', plus is_space,
            lit ''with'', plus is_space, Grp 2 (plus is_digit), years_word],
      seqs [Grp 1 (plus is_digit), years_word, plus is_space, Grp 2 (plus tech_char),
            plus is_space, alts [lit ''developer'', lit ''engineer'', lit ''developer'']]]"

text \<open>
  Which group holds the years and which the technology. \<open>None\<close> stands for the
  \<open>ValueError\<close> that \<open>int\<close> raises on a string that is not a number.
\<close>

definition claim_of :: "string \<times> string \<Rightarrow> (int \<times> string) option" where
  "claim_of m =
     (if isdigit (fst m)
      then map_option (\<lambda>years. (years, lower (strip (snd m)))) (py_int (fst m))
      else map_option (\<lambda>years. (years, lower (strip (fst m)))) (py_int (snd m)))"

definition experience_mismatch :: "int \<Rightarrow> int \<Rightarrow> string \<Rightarrow> int \<Rightarrow> flag" where
  "experience_mismatch years max_possible_years known_tech release_year =
     \<lparr>flag_type = ''EXPERIENCE_MISMATCH'',
      severity = Some SEVERITY_HIGH,
      description =
        ''Claims '' @ str_int years @ '' years experience with '' @ known_tech
        @ '', but it was released in '' @ str_int release_year
        @ '' ('' @ str_int max_possible_years @ '' years ago)'',
      evidence =
        [(''claimed_years'', EvInt years),
         (''max_possible_years'', EvInt max_possible_years),
         (''technology'', EvStr known_tech),
         (''release_year'', EvInt release_year)]\<rparr>"

text \<open>
  The loop over the table stops at the first entry whose name occurs in the phrase,
  whether or not it raises a flag.
\<close>

fun known_tech_loop :: "int \<Rightarrow> int \<Rightarrow> string \<Rightarrow> (string \<times> int) list \<Rightarrow> flag list" where
  "known_tech_loop current_year years tech [] = []"
| "known_tech_loop current_year years tech ((known_tech, release_year) # table) =
     (if contains known_tech tech
      then (let max_possible_years = current_year - release_year
            in if years > max_possible_years + 1
               then [experience_mismatch years max_possible_years known_tech release_year]
               else [])
      else known_tech_loop current_year years tech table)"

fun match_loop :: "int \<Rightarrow> (string \<times> string) list \<Rightarrow> flag list option" where
  "match_loop current_year [] = Some []"
| "match_loop current_year (m # matches) =
     (case claim_of m of
        None \<Rightarrow> None
      | Some (years, tech) \<Rightarrow>
          map_option (\<lambda>flags. known_tech_loop current_year years tech TECH_RELEASE_DATES @ flags)
            (match_loop current_year matches))"

fun pattern_loop :: "int \<Rightarrow> string \<Rightarrow> rx list \<Rightarrow> flag list option" where
  "pattern_loop current_year full_text [] = Some []"
| "pattern_loop current_year full_text (pattern # patterns) =
     (case match_loop current_year (findall2 pattern full_text) of
        None \<Rightarrow> None
      | Some flags \<Rightarrow> map_option (\<lambda>more. flags @ more)
                        (pattern_loop current_year full_text patterns))"

definition full_text_of :: "resume_data \<Rightarrow> string" where
  "full_text_of resume_data =
     (let raw = (case summary resume_data of Some (Some s) \<Rightarrow> s | _ \<Rightarrow> [])
      in lower raw
         @ concat (map (\<lambda>exp. '' '' @ lower (get_or (raw_text exp) []))
                       (get_or (experience resume_data) [])))"

definition validate_experience_claims :: "int \<Rightarrow> resume_data \<Rightarrow> flag list option" where
  "validate_experience_claims current_year resume_data =
     pattern_loop current_year (full_text_of resume_data) claim_patterns"

subsection \<open>Validator.\_validate\_resume\_vs\_linkedin\<close>

record linkedin_data =
  li_status :: "string option"
  li_experience :: "experience_entry list option"

definition titles_of :: "experience_entry list \<Rightarrow> string set" where
  "titles_of exps =
     set (concat (map (\<lambda>exp. case title exp of
                               None \<Rightarrow> []
                             | Some t \<Rightarrow> if t \<noteq> [] then [lower t] else []) exps))"

text \<open>
  \<open>list(resume_titles)[:3]\<close> takes three titles in the iteration order of a set, which
  the language leaves open: \<open>set_list\<close> is that order.
\<close>

definition validate_resume_vs_linkedin ::
  "(string set \<Rightarrow> string list) \<Rightarrow> resume_data \<Rightarrow> linkedin_data \<Rightarrow> flag list" where
  "validate_resume_vs_linkedin set_list resume_data linkedin_data =
     (if li_status linkedin_data = Some ''scraping_failed'' then []
      else (let resume_experience = get_or (experience resume_data) [];
                linkedin_experience = get_or (li_experience linkedin_data) [];
                resume_titles = titles_of resume_experience;
                linkedin_titles = titles_of linkedin_experience
            in if resume_titles \<noteq> {} \<and> linkedin_titles \<noteq> {}
               then (let overlap = resume_titles \<inter> linkedin_titles
                     in if overlap = {} \<and> 2 < card resume_titles \<and> 2 < card linkedin_titles
                        then [\<lparr>flag_type = ''TITLE_MISMATCH'',
                               severity = Some SEVERITY_MEDIUM,
                               description =
                                 ''Job titles on resume don't match LinkedIn profile'',
                               evidence =
                                 [(''resume_titles'', EvStrs (take 3 (set_list resume_titles))),
                                  (''linkedin_titles'',
                                     EvStrs (take 3 (set_list linkedin_titles)))]\<rparr>]
                        else [])
               else []))"


section \<open>Sample inputs\<close>

text \<open>Scenario C of the specification: a facts record with two skill keywords.\<close>

definition scenario_C_facts :: resume_data where
  "scenario_C_facts =
     \<lparr>file_path = None, parsed_at = None, raw_text_length = None, contact = None,
      experience = None, education = None, skills = None, certifications = None,
      summary = None, total_years_experience = None,
      skill_keywords = Some [\<lparr>keyword = ''python'', count = 10\<rparr>,
                             \<lparr>keyword = ''aws'', count = 5\<rparr>],
      rd_other_keys = False\<rparr>"

definition five_keyword_facts :: resume_data where
  "five_keyword_facts =
     scenario_C_facts
       \<lparr>skill_keywords :=
          Some [\<lparr>keyword = ''python'', count = 10\<rparr>, \<lparr>keyword = ''aws'', count = 5\<rparr>,
                \<lparr>keyword = ''docker'', count = 3\<rparr>, \<lparr>keyword = ''sql'', count = 2\<rparr>,
                \<lparr>keyword = ''react'', count = 1\<rparr>]\<rparr>"

text \<open>Scenario A of the specification: a summary claiming eight years of FastAPI.\<close>

definition scenario_A_facts :: resume_data where
  "scenario_A_facts =
     scenario_C_facts \<lparr>summary := Some (Some ''8 years of experience with FastAPI''),
                       experience := Some []\<rparr>"

text \<open>Clock readings, a one-entry resume and a network profile with three titles.\<close>

definition now_2024_06 :: datetime where
  "now_2024_06 =
     \<lparr>year = 2024, month = 6, day = 15, hour = 10, minute = 0, second = 0, microsecond = 0\<rparr>"

definition now_2025_06 :: datetime where
  "now_2025_06 =
     \<lparr>year = 2025, month = 6, day = 15, hour = 10, minute = 0, second = 0, microsecond = 0\<rparr>"

definition resume_present :: string where
  "resume_present = ''Experience'' @ [CHR 0x0A] @ ''Jan 2020 - Present''"

definition now_2024_06_late :: datetime where
  "now_2024_06_late =
     \<lparr>year = 2024, month = 6, day = 30, hour = 23, minute = 59, second = 59, microsecond = 0\<rparr>"

definition linkedin_three_titles :: linkedin_data where
  "linkedin_three_titles =
     \<lparr>li_status = None,
      li_experience =
        Some [\<lparr>raw_text = None, dates = None, duration_months = None,
                title = Some ''Software Engineer'', company = Some ''Acme''\<rparr>,
              \<lparr>raw_text = None, dates = None, duration_months = None,
                title = Some ''Senior Engineer'', company = Some ''Acme''\<rparr>,
              \<lparr>raw_text = None, dates = None, duration_months = None,
                title = Some ''Tech Lead'', company = Some ''Initech''\<rparr>]\<rparr>"

text \<open>
  Two experience sections with two date pairs each: more than 300 characters apart, and
  close together.
\<close>

definition far_apart_section :: string where
  "far_apart_section = ''Jan 2020 - Feb 2021'' @ replicate 300 CHR ''.'' @ ''Mar 2021 - Present''"

definition far_apart_resume :: string where
  "far_apart_resume = ''Experience'' @ [CHR 0x0A] @ far_apart_section"

definition two_jobs_section :: string where
  "two_jobs_section = ''Jan 2020 - Feb 2021 then Mar 2021 - Present''"

definition two_jobs_resume :: string where
  "two_jobs_resume = ''Experience'' @ [CHR 0x0A] @ two_jobs_section"

section \<open>Counting flags by severity\<close>

definition n_high :: "flag list \<Rightarrow> nat" where
  "n_high flags = length (filter (\<lambda>f. get_severity f = ''HIGH'') flags)"

definition n_medium :: "flag list \<Rightarrow> nat" where
  "n_medium flags = length (filter (\<lambda>f. get_severity f = ''MEDIUM'') flags)"

definition n_other :: "flag list \<Rightarrow> nat" where
  "n_other flags =
     length (filter (\<lambda>f. get_severity f \<noteq> ''HIGH'' \<and> get_severity f \<noteq> ''MEDIUM'') flags)"

definition clamp :: "rat \<Rightarrow> rat \<Rightarrow> rat \<Rightarrow> rat" where
  "clamp x lo hi = max lo (min hi x)"

definition total_deduction :: "flag list \<Rightarrow> rat" where
  "total_deduction flags =
     3 * of_nat (n_high flags) + 3 / 2 * of_nat (n_medium flags)
       + 1 / 2 * of_nat (n_other flags)"

section \<open>Properties of the pattern matcher\<close>

text \<open>
  A match consumes at least the minimal length of its pattern, so for a pattern that
  cannot match the empty string the guard of \<open>finditer_from\<close> always holds. That covers
  the date patterns, the claim patterns, the degree patterns and the keyword patterns.
\<close>

lemma rx_runs_length:
  "(p', s', c') \<in> set (rx_runs r prev s c) \<Longrightarrow> length s' + min_len r \<le> length s"
proof (induction r arbitrary: p' s' c' prev s c)
  case (Set p)
  then show ?case by (cases s) (auto split: if_splits)
next
  case (Seq a b)
  from Seq.prems obtain p1 s1 c1 where a: "(p1, s1, c1) \<in> set (rx_runs a prev s c)"
    and b: "(p', s', c') \<in> set (rx_runs b p1 s1 c1)" by auto
  from Seq.IH(1) [OF a] Seq.IH(2) [OF b] show ?case by simp
next
  case (Alt a b)
  from Alt.prems have "(p', s', c') \<in> set (rx_runs a prev s c)
      \<or> (p', s', c') \<in> set (rx_runs b prev s c)" by auto
  then show ?case
  proof
    assume "(p', s', c') \<in> set (rx_runs a prev s c)"
    from Alt.IH(1) [OF this] show ?thesis by simp
  next
    assume "(p', s', c') \<in> set (rx_runs b prev s c)"
    from Alt.IH(2) [OF this] show ?thesis by simp
  qed
next
  case (Rep lo hi q)
  define m where
    "m = (case hi of None \<Rightarrow> length (takeWhile q s)
          | Some h \<Rightarrow> min h (length (takeWhile q s)))"
  have m: "m \<le> length (takeWhile q s)"
    by (simp add: m_def split: option.split)
  from Rep.prems have "(p', s', c') \<in> (\<lambda>j. (last_of prev (take j s), drop j s, c)) ` {lo..<Suc m}"
    by (simp add: Let_def m_def del: upt_Suc)
  then obtain j where j: "lo \<le> j" "j \<le> m" "s' = drop j s" by auto
  have "j \<le> length s"
    using j(2) m length_takeWhile_le [of q s] by linarith
  then show ?case using j by simp
next
  case (Grp n r)
  from Grp.prems obtain c1 where "(p', s', c1) \<in> set (rx_runs r prev s c)" by auto
  from Grp.IH [OF this] show ?case by simp
qed (auto split: if_splits)

lemma search_from_span:
  "search_from r prev i s = Some m \<Longrightarrow>
     i \<le> m_start m \<and> m_start m + min_len r \<le> m_end m \<and> m_end m \<le> i + length s"
proof (induction r prev i s rule: search_from.induct)
  case (1 r prev i)
  then obtain p' s' c xs where h: "rx_runs r prev [] [] = (p', s', c) # xs"
    and m: "m = \<lparr>m_start = i, m_end = i, m_groups = c\<rparr>"
    by (auto split: list.splits)
  from h have "(p', s', c) \<in> set (rx_runs r prev [] [])" by simp
  from rx_runs_length [OF this] m show ?case by simp
next
  case (2 r prev i x xs)
  show ?case
  proof (cases "rx_runs r prev (x # xs) []")
    case Nil
    with "2.prems" have "search_from r (Some x) (Suc i) xs = Some m" by simp
    from "2.IH" [OF Nil this] show ?thesis by simp
  next
    case (Cons a as)
    obtain p' s' c where a: "a = (p', s', c)" by (cases a)
    with Cons "2.prems" have m: "m = \<lparr>m_start = i,
        m_end = i + (length (x # xs) - length s'), m_groups = c\<rparr>" by auto
    from Cons a have "(p', s', c) \<in> set (rx_runs r prev (x # xs) [])" by simp
    from rx_runs_length [OF this] m show ?thesis by auto
  qed
qed

lemma finditer_from_unguarded:
  assumes "0 < min_len r"
  shows "finditer_from r prev i s =
     (case search_from r prev i s of
        None \<Rightarrow> []
      | Some m \<Rightarrow> m # finditer_from r (last_of prev (take (m_end m - i) s)) (m_end m)
                          (drop (m_end m - i) s))"
proof (cases "search_from r prev i s")
  case None
  then show ?thesis by (simp add: finditer_from.simps [of r prev i s])
next
  case (Some m)
  from search_from_span [OF Some] assms have "i < m_end m \<and> m_end m \<le> i + length s"
    by linarith
  with Some show ?thesis by (simp add: finditer_from.simps [of r prev i s])
qed

lemma min_len_lit: "min_len (lit s) = length s"
  by (induction s) (simp_all add: lit_def)

lemma min_len_liti: "min_len (liti s) = length s"
  by (induction s) (simp_all add: liti_def)

lemma min_len_seqs: "min_len (seqs rs) = sum_list (map min_len rs)"
  by (induction rs) (simp_all add: seqs_def)

lemma date_patterns_consume: "p \<in> set DATE_PATTERNS \<Longrightarrow> 0 < min_len p"
  by (auto simp: DATE_PATTERNS_def min_len_seqs month_year_def slash_date_def plus_def
      times_def dash_def star_def)

lemma claim_patterns_consume: "p \<in> set claim_patterns \<Longrightarrow> 0 < min_len p"
  by (auto simp: claim_patterns_def min_len_seqs plus_def)

lemma degree_patterns_consume: "p \<in> set degree_patterns \<Longrightarrow> 0 < min_len p"
  by (auto simp: degree_patterns_def min_len_liti)

lemma keyword_pattern_consumes:
  "kw \<in> set TECH_KEYWORDS \<Longrightarrow> 0 < min_len (seqs [Bnd, lit kw, Bnd])"
  by (auto simp: min_len_seqs min_len_lit TECH_KEYWORDS_def)

section \<open>Properties of the credibility scores\<close>

lemma py_round1_ten: "py_round1 10 = 10"
  by (simp add: py_round1_def)

lemma total_deduction_Nil: "total_deduction [] = 0"
  by (simp add: total_deduction_def n_high_def n_medium_def n_other_def)

lemma total_deduction_Cons:
  "total_deduction (f # fs) =
     (if get_severity f = ''HIGH'' then 3
      else if get_severity f = ''MEDIUM'' then 3 / 2 else 1 / 2) + total_deduction fs"
  by (simp add: total_deduction_def n_high_def n_medium_def n_other_def algebra_simps)

lemma total_deduction_nonneg: "0 \<le> total_deduction flags"
  by (simp add: total_deduction_def)

lemma deductions_loop_eq:
  "deductions_loop d flags = d + total_deduction flags"
proof (induction flags arbitrary: d)
  case Nil
  show ?case by (simp add: total_deduction_Nil)
next
  case (Cons f fs)
  show ?case
    by (simp add: Cons.IH total_deduction_Cons SEVERITY_HIGH_def SEVERITY_MEDIUM_def)
qed

lemma credibility_loop_eq:
  "credibility_loop s flags = s - total_deduction flags"
proof (induction flags arbitrary: s)
  case Nil
  show ?case by (simp add: total_deduction_Nil)
next
  case (Cons f fs)
  show ?case
    by (simp add: Cons.IH total_deduction_Cons)
qed

text \<open>
  Claim C1. For every list of flags the Validator's credibility score is
  \<open>clamp(10 - 3\<cdot>#HIGH - 1.5\<cdot>#MEDIUM - 0.5\<cdot>#other, 0, 10)\<close> rounded to one decimal,
  where a flag without a severity counts as LOW and every severity other than HIGH and
  MEDIUM costs one half; for the empty list the score is 10.
\<close>

theorem C1_credibility_score_formula:
  "get_credibility_score flags =
     py_round1 (clamp (10 - 3 * of_nat (n_high flags) - 3 / 2 * of_nat (n_medium flags)
                         - 1 / 2 * of_nat (n_other flags)) 0 10)
   \<and> get_credibility_score [] = 10"
proof -
  have d: "10 - 3 * of_nat (n_high flags) - 3 / 2 * of_nat (n_medium flags)
             - 1 / 2 * of_nat (n_other flags) = 10 - total_deduction flags"
    by (simp add: total_deduction_def)
  have le: "10 - total_deduction flags \<le> 10"
    using total_deduction_nonneg [of flags] by simp
  have "get_credibility_score flags = py_round1 (clamp (10 - total_deduction flags) 0 10)"
  proof (cases "flags = []")
    case True
    then show ?thesis
      by (simp add: get_credibility_score_def clamp_def total_deduction_Nil py_round1_ten)
  next
    case False
    then show ?thesis
      using le by (simp add: get_credibility_score_def clamp_def deductions_loop_eq min_def)
  qed
  moreover have "get_credibility_score [] = 10"
    by (simp add: get_credibility_score_def)
  ultimately show ?thesis
    by (simp only: d simp_thms)
qed

lemma rounded_credibility:
  "py_round1 (calculate_credibility (Some flags)) = get_credibility_score flags"
proof (cases "flags = []")
  case True
  then show ?thesis
    by (simp add: calculate_credibility_def get_credibility_score_def py_round1_ten)
next
  case False
  have "10 - total_deduction flags \<le> 10"
    using total_deduction_nonneg [of flags] by simp
  with False show ?thesis
    by (simp add: calculate_credibility_def get_credibility_score_def
        credibility_loop_eq deductions_loop_eq min_def)
qed

text \<open>
  Claim C9. For every list of flags, the credibility sub-score of the Composite Scorer,
  rounded to one decimal as it is reported in the breakdown, equals the credibility
  score of the Validator on the same list.
\<close>

theorem C9_scorer_credibility_equals_validator:
  "py_round1 (calculate_credibility (Some flags)) = get_credibility_score flags
   \<and> map_of (breakdown (calculate_score gd rd sa (Some flags))) ''credibility''
       = Some (get_credibility_score flags)"
  by (simp add: rounded_credibility calculate_score_def Let_def)

section \<open>Properties of the composite score\<close>









text \<open>
  Claim C7, as stated: with the two-entry skill-keyword table
  \<open>[{python, 10}, {aws, 5}]\<close> and no semantic assessment the technical-match sub-score
  is 6.0. The code counts the entries of the table, two here, and returns 5.0.
\<close>

theorem C7_two_keywords_not_six:
  "calculate_technical_match (Some scenario_C_facts) None \<noteq> 6"
  by (simp add: calculate_technical_match_def scenario_C_facts_def rd_truthy_def
      sa_truthy_def get_or_def)

text \<open>
  Claim C7, amended. Without a semantic assessment and with a facts record, the
  technical-match sub-score is the step function of the number of entries of the
  skill-keyword table: at least 15 gives 8, at least 10 gives 7, at least 5 gives 6,
  anything less gives 5. So the table \<open>[{python, 10}, {aws, 5}]\<close> gives 5.0 and a table
  of exactly five keywords gives 6.0.
\<close>

theorem C7_no_assessment_step_function:
  assumes "sa_truthy sa = None" and "rd_truthy rd = Some d"
  shows "calculate_technical_match rd sa =
           (let n = length (get_or (skill_keywords d) [])
            in if 15 \<le> n then 8 else if 10 \<le> n then 7 else if 5 \<le> n then 6 else 5)
         \<and> (skill_keywords d = Some [\<lparr>keyword = ''python'', count = 10\<rparr>,
                                      \<lparr>keyword = ''aws'', count = 5\<rparr>]
              \<longrightarrow> calculate_technical_match rd sa = 5)
         \<and> (length (get_or (skill_keywords d) []) = 5
              \<longrightarrow> calculate_technical_match rd sa = 6)"
  using assms by (simp add: calculate_technical_match_def get_or_def Let_def)

theorem C7_no_assessment_step_function_witness:
  "sa_truthy None = None
   \<and> rd_truthy (Some scenario_C_facts) = Some scenario_C_facts
   \<and> skill_keywords scenario_C_facts = Some [\<lparr>keyword = ''python'', count = 10\<rparr>,
                                              \<lparr>keyword = ''aws'', count = 5\<rparr>]
   \<and> calculate_technical_match (Some scenario_C_facts) None = 5
   \<and> rd_truthy (Some five_keyword_facts) = Some five_keyword_facts
   \<and> length (get_or (skill_keywords five_keyword_facts) []) = 5
   \<and> calculate_technical_match (Some five_keyword_facts) None = 6"
proof -
  have a: "sa_truthy None = None" by (simp add: sa_truthy_def)
  have b: "rd_truthy (Some scenario_C_facts) = Some scenario_C_facts"
    by (simp add: rd_truthy_def scenario_C_facts_def)
  have c: "skill_keywords scenario_C_facts = Some [\<lparr>keyword = ''python'', count = 10\<rparr>,
                                                   \<lparr>keyword = ''aws'', count = 5\<rparr>]"
    by (simp add: scenario_C_facts_def)
  have b5: "rd_truthy (Some five_keyword_facts) = Some five_keyword_facts"
    by (simp add: rd_truthy_def five_keyword_facts_def)
  have c5: "length (get_or (skill_keywords five_keyword_facts) []) = 5"
    by (simp add: five_keyword_facts_def get_or_def)
  show ?thesis
    using C7_no_assessment_step_function [OF a b] C7_no_assessment_step_function [OF a b5]
      a b c b5 c5
    by simp
qed

section \<open>Properties of the fact extractor\<close>

lemma py_round1_nonneg: "0 \<le> x \<Longrightarrow> 0 \<le> py_round1 x"
proof -
  assume "0 \<le> x"
  then have "0 \<le> \<lfloor>x * 10\<rfloor>" by simp
  then show ?thesis
    by (simp add: py_round1_def Let_def)
qed

lemma calculate_duration_nonneg: "0 \<le> calculate_duration now s e"
  by (simp add: calculate_duration_def Let_def)

lemma entries_shape:
  "e \<in> set (entries now sec mts) \<Longrightarrow>
     \<exists>rt s en. e = \<lparr>raw_text = Some rt, dates = Some (s, en),
                      duration_months = Some (calculate_duration now s en),
                      title = None, company = None\<rparr>"
  by (induction now sec mts rule: entries.induct) (auto simp: make_entry_def Let_def)

lemma experience_loop_shape:
  "e \<in> set (experience_loop now sec ps) \<Longrightarrow>
     \<exists>rt s en. e = \<lparr>raw_text = Some rt, dates = Some (s, en),
                      duration_months = Some (calculate_duration now s en),
                      title = None, company = None\<rparr>"
  by (induction ps) (auto simp: Let_def dest: entries_shape split: if_splits)

lemma extract_experience_shape:
  "e \<in> set (extract_experience now text) \<Longrightarrow>
     \<exists>rt s en. e = \<lparr>raw_text = Some rt, dates = Some (s, en),
                      duration_months = Some (calculate_duration now s en),
                      title = None, company = None\<rparr>"
  by (auto simp: extract_experience_def split: option.splits if_splits
      dest!: in_set_takeD experience_loop_shape)

lemma extract_experience_months_nonneg:
  "0 \<le> sum_list (map (\<lambda>e. get_or (duration_months e) 0) (extract_experience now text))"
proof (rule sum_list_nonneg)
  fix x assume "x \<in> set (map (\<lambda>e. get_or (duration_months e) 0) (extract_experience now text))"
  then obtain e where e: "e \<in> set (extract_experience now text)"
    and x: "x = get_or (duration_months e) 0" by auto
  from extract_experience_shape [OF e] obtain rt s en where
    "e = \<lparr>raw_text = Some rt, dates = Some (s, en),
          duration_months = Some (calculate_duration now s en),
          title = None, company = None\<rparr>" by blast
  with x show "0 \<le> x" by (simp add: get_or_def calculate_duration_nonneg)
qed

lemma titles_of_extract_experience: "titles_of (extract_experience now text) = {}"
proof -
  have "\<forall>e \<in> set (extract_experience now text). title e = None"
    using extract_experience_shape by fastforce
  then show ?thesis
    by (induction "extract_experience now text") (auto simp: titles_of_def)
qed

lemma ee_2024:
  "extract_experience now_2024_06 resume_present =
     [\<lparr>raw_text = Some ''Jan 2020 - Present'', dates = Some (''Jan 2020'', ''Present''),
       duration_months = Some 53, title = None, company = None\<rparr>]"
  by code_simp

text \<open>
  Claim C5 says that the contact name is the first of the first five lines that is
  non-empty, contains none of the substrings \<open>@\<close>, \<open>www.\<close>, \<open>http\<close>, \<open>.com\<close> and has at
  most four tokens. The line \<open>John Smith\<close> meets all of that, yet the code extracts no
  name from it: the pattern that should skip contact lines is a character class, and
  the line holds the characters \<open>o\<close>, \<open>h\<close>, \<open>m\<close>, \<open>t\<close> of that class.
\<close>

theorem C5_name_of_john_smith:
  "name (extract_contact ''John Smith'') = None
   \<and> strip ''John Smith'' \<noteq> []
   \<and> \<not> contains ''@'' ''John Smith'' \<and> \<not> contains ''www.'' ''John Smith''
   \<and> \<not> contains ''http'' ''John Smith'' \<and> \<not> contains ''.com'' ''John Smith''
   \<and> length (split_ws ''John Smith'') \<le> 4"
  by code_simp

lemma ee_2025:
  "extract_experience now_2025_06 resume_present =
     [\<lparr>raw_text = Some ''Jan 2020 - Present'', dates = Some (''Jan 2020'', ''Present''),
       duration_months = Some 65, title = None, company = None\<rparr>]"
  by code_simp

lemma py_round1_53: "py_round1 (53 / 12) = 44 / 10"
proof -
  have f: "\<lfloor>(265::rat) / 6\<rfloor> = 44" by (rule floor_unique) simp_all
  show ?thesis by (simp add: py_round1_def Let_def f)
qed

lemma py_round1_65: "py_round1 (65 / 12) = 54 / 10"
proof -
  have f: "\<lfloor>(325::rat) / 6\<rfloor> = 54" by (rule floor_unique) simp_all
  show ?thesis by (simp add: py_round1_def Let_def f)
qed

text \<open>
  Claim C3. In every facts record that \<open>parse\<close> produces, the total years of experience
  are the sum of the entries' durations in months, divided by 12 and rounded to one
  decimal, and are not negative; and the duration of every entry is
  \<open>(end.year - start.year) * 12 + (end.month - start.month)\<close>, floored at 0, where the start
  is the parsed start date and the end is the current date for
  \<open>present\<close>, \<open>current\<close>, \<open>now\<close> and the parsed end date otherwise.
\<close>

theorem C3_total_years_experience:
  "experience (parse path resume_text now utcnow) = Some (extract_experience now resume_text)
   \<and> total_years_experience (parse path resume_text now utcnow) =
       Some (py_round1 (of_int (sum_list (map (\<lambda>e. get_or (duration_months e) 0)
                                            (extract_experience now resume_text))) / 12))
   \<and> 0 \<le> py_round1 (of_int (sum_list (map (\<lambda>e. get_or (duration_months e) 0)
                                            (extract_experience now resume_text))) / 12)
   \<and> (\<forall>e \<in> set (extract_experience now resume_text).
         \<exists>start end.
           dates e = Some (start, end)
           \<and> duration_months e =
               Some (max 0
                 ((year (if lower end \<in> set [''present'', ''current'', ''now''] then now
                         else parse_date now end)
                   - year (parse_date now start)) * 12
                  + (month (if lower end \<in> set [''present'', ''current'', ''now''] then now
                            else parse_date now end)
                     - month (parse_date now start)))))"
proof -
  have a: "experience (parse path resume_text now utcnow) = Some (extract_experience now resume_text)"
    by (simp add: parse_def Let_def)
  have b: "total_years_experience (parse path resume_text now utcnow) =
       Some (py_round1 (of_int (sum_list (map (\<lambda>e. get_or (duration_months e) 0)
                                            (extract_experience now resume_text))) / 12))"
    by (simp add: parse_def Let_def calculate_total_experience_def)
  have c: "0 \<le> py_round1 (of_int (sum_list (map (\<lambda>e. get_or (duration_months e) 0)
                                            (extract_experience now resume_text))) / 12)"
    by (rule py_round1_nonneg) (simp add: extract_experience_months_nonneg)
  have d: "\<forall>e \<in> set (extract_experience now resume_text).
         \<exists>start end.
           dates e = Some (start, end)
           \<and> duration_months e =
               Some (max 0
                 ((year (if lower end \<in> set [''present'', ''current'', ''now''] then now
                         else parse_date now end)
                   - year (parse_date now start)) * 12
                  + (month (if lower end \<in> set [''present'', ''current'', ''now''] then now
                            else parse_date now end)
                     - month (parse_date now start))))"
  proof
    fix e assume "e \<in> set (extract_experience now resume_text)"
    from extract_experience_shape [OF this] obtain rt s en where
      e: "e = \<lparr>raw_text = Some rt, dates = Some (s, en),
               duration_months = Some (calculate_duration now s en),
               title = None, company = None\<rparr>" by blast
    have "dates e = Some (s, en)" using e by simp
    moreover have "duration_months e =
               Some (max 0
                 ((year (if lower en \<in> set [''present'', ''current'', ''now''] then now
                         else parse_date now en)
                   - year (parse_date now s)) * 12
                  + (month (if lower en \<in> set [''present'', ''current'', ''now''] then now
                            else parse_date now en)
                     - month (parse_date now s))))"
      using e by (simp add: calculate_duration_def Let_def)
    ultimately show "\<exists>start end.
           dates e = Some (start, end)
           \<and> duration_months e =
               Some (max 0
                 ((year (if lower end \<in> set [''present'', ''current'', ''now''] then now
                         else parse_date now end)
                   - year (parse_date now start)) * 12
                  + (month (if lower end \<in> set [''present'', ''current'', ''now''] then now
                            else parse_date now end)
                     - month (parse_date now start))))"
      by blast
  qed
  from a b c d show ?thesis by blast
qed

theorem C3_total_years_experience_witness:
  "map dates (extract_experience now_2024_06 resume_present) = [Some (''Jan 2020'', ''Present'')]
   \<and> map duration_months (extract_experience now_2024_06 resume_present) = [Some 53]
   \<and> total_years_experience (parse ''cv.pdf'' resume_present now_2024_06 now_2024_06)
       = Some (44 / 10)"
  using C3_total_years_experience [where path = "''cv.pdf''" and resume_text = resume_present
      and now = now_2024_06 and utcnow = now_2024_06]
  by (simp add: ee_2024 get_or_def py_round1_53)

text \<open>
  Claim C10. Every experience entry that the extractor produces has neither a title nor
  a company; so the set of resume titles of a record produced by \<open>parse\<close> is empty, and
  the title-overlap check raises no flag on it (no \<open>TITLE_MISMATCH\<close> in particular),
  whatever the network profile.
\<close>

theorem C10_extracted_titles_empty:
  "(\<forall>e \<in> set (extract_experience now resume_text). title e = None \<and> company e = None)
   \<and> experience (parse path resume_text now utcnow) = Some (extract_experience now resume_text)
   \<and> titles_of (extract_experience now resume_text) = {}
   \<and> validate_resume_vs_linkedin set_list (parse path resume_text now utcnow) profile = []"
proof -
  have a: "\<forall>e \<in> set (extract_experience now resume_text). title e = None \<and> company e = None"
    using extract_experience_shape by fastforce
  have b: "experience (parse path resume_text now utcnow) = Some (extract_experience now resume_text)"
    by (simp add: parse_def Let_def)
  have c: "titles_of (extract_experience now resume_text) = {}"
    by (rule titles_of_extract_experience)
  have d: "validate_resume_vs_linkedin set_list (parse path resume_text now utcnow) profile = []"
    by (simp add: validate_resume_vs_linkedin_def Let_def b c get_or_def)
  from a b c d show ?thesis by blast
qed

theorem C10_extracted_titles_empty_witness:
  "map title (extract_experience now_2024_06 resume_present) = [None]
   \<and> map company (extract_experience now_2024_06 resume_present) = [None]
   \<and> card (titles_of (get_or (li_experience linkedin_three_titles) [])) = 3
   \<and> validate_resume_vs_linkedin (\<lambda>S. [])
        (parse ''cv.pdf'' resume_present now_2024_06 now_2024_06) linkedin_three_titles = []"
proof -
  have "card (titles_of (get_or (li_experience linkedin_three_titles) [])) = 3"
    by (simp add: linkedin_three_titles_def get_or_def titles_of_def lower_def lower_char_def)
  then show ?thesis
    using C10_extracted_titles_empty [where now = now_2024_06 and resume_text = resume_present
        and path = "''cv.pdf''" and utcnow = now_2024_06 and set_list = "\<lambda>S. []"
        and profile = linkedin_three_titles]
    by (simp add: ee_2024)
qed

lemma parse_date_year_month:
  assumes "year now1 = year now2" and "month now1 = month now2"
  shows "year (parse_date now1 s) = year (parse_date now2 s)
         \<and> month (parse_date now1 s) = month (parse_date now2 s)"
  using assms by (simp add: parse_date_def Let_def split: option.split)

lemma calculate_duration_year_month:
  assumes "year now1 = year now2" and "month now1 = month now2"
  shows "calculate_duration now1 s e = calculate_duration now2 s e"
  using assms parse_date_year_month [OF assms, of s] parse_date_year_month [OF assms, of e]
  by (simp add: calculate_duration_def Let_def)

lemma entries_year_month:
  assumes "year now1 = year now2" and "month now1 = month now2"
  shows "entries now1 sec mts = entries now2 sec mts"
  by (induction mts rule: induct_list012)
     (simp_all add: make_entry_def Let_def calculate_duration_year_month [OF assms])

lemma experience_loop_year_month:
  assumes "year now1 = year now2" and "month now1 = month now2"
  shows "experience_loop now1 sec ps = experience_loop now2 sec ps"
  by (induction ps) (simp_all add: Let_def entries_year_month [OF assms])

lemma extract_experience_year_month:
  assumes "year now1 = year now2" and "month now1 = month now2"
  shows "extract_experience now1 text = extract_experience now2 text"
  by (simp add: extract_experience_def experience_loop_year_month [OF assms]
      split: option.split)

text \<open>
  Claim C8, as stated: two runs on the same text differ in the parse timestamp only.
  The text \<open>Experience / Jan 2020 - Present\<close> extracted in June 2024 and in June 2025
  gives 53 and 65 months, and 4.4 and 5.4 total years: the records differ in fields
  other than the timestamp.
\<close>

theorem C8_clock_dependent_durations:
  "map duration_months (extract_experience now_2024_06 resume_present) = [Some 53]
   \<and> map duration_months (extract_experience now_2025_06 resume_present) = [Some 65]
   \<and> total_years_experience (parse ''cv.pdf'' resume_present now_2024_06 now_2024_06)
       = Some (44 / 10)
   \<and> total_years_experience (parse ''cv.pdf'' resume_present now_2025_06 now_2025_06)
       = Some (54 / 10)
   \<and> (parse ''cv.pdf'' resume_present now_2024_06 now_2024_06)\<lparr>parsed_at := None\<rparr>
       \<noteq> (parse ''cv.pdf'' resume_present now_2025_06 now_2025_06)\<lparr>parsed_at := None\<rparr>"
proof -
  have a: "total_years_experience (parse ''cv.pdf'' resume_present now_2024_06 now_2024_06)
       = Some (44 / 10)"
    by (simp add: parse_def Let_def calculate_total_experience_def ee_2024 get_or_def
        py_round1_53)
  have b: "total_years_experience (parse ''cv.pdf'' resume_present now_2025_06 now_2025_06)
       = Some (54 / 10)"
    by (simp add: parse_def Let_def calculate_total_experience_def ee_2025 get_or_def
        py_round1_65)
  have "total_years_experience
          ((parse ''cv.pdf'' resume_present now_2024_06 now_2024_06)\<lparr>parsed_at := None\<rparr>)
        \<noteq> total_years_experience
          ((parse ''cv.pdf'' resume_present now_2025_06 now_2025_06)\<lparr>parsed_at := None\<rparr>)"
    using a b by simp
  then have c: "(parse ''cv.pdf'' resume_present now_2024_06 now_2024_06)\<lparr>parsed_at := None\<rparr>
       \<noteq> (parse ''cv.pdf'' resume_present now_2025_06 now_2025_06)\<lparr>parsed_at := None\<rparr>"
    by metis
  from a b c show ?thesis by (simp add: ee_2024 ee_2025)
qed

lemma entries_up_to_duration:
  "map (\<lambda>e. e\<lparr>duration_months := None\<rparr>) (entries now1 sec mts)
     = map (\<lambda>e. e\<lparr>duration_months := None\<rparr>) (entries now2 sec mts)"
  by (induction mts rule: induct_list012) (simp_all add: make_entry_def Let_def)

lemma experience_loop_up_to_duration:
  "map (\<lambda>e. e\<lparr>duration_months := None\<rparr>) (experience_loop now1 sec ps)
     = map (\<lambda>e. e\<lparr>duration_months := None\<rparr>) (experience_loop now2 sec ps)"
  by (induction ps) (simp_all add: Let_def entries_up_to_duration)

lemma extract_experience_up_to_duration:
  "map (\<lambda>e. e\<lparr>duration_months := None\<rparr>) (extract_experience now1 resume_text)
     = map (\<lambda>e. e\<lparr>duration_months := None\<rparr>) (extract_experience now2 resume_text)"
proof (cases "extract_section resume_text ''experience''")
  case None
  then show ?thesis by (simp add: extract_experience_def)
next
  case (Some sec)
  show ?thesis
    using experience_loop_up_to_duration [of now1 sec DATE_PATTERNS now2]
    by (simp add: extract_experience_def Some take_map [symmetric])
qed

lemma parse_up_to_clock_fields:
  "(parse path resume_text now1 utc1)
      \<lparr>parsed_at := None, experience := None, total_years_experience := None\<rparr>
   = (parse path resume_text now2 utc2)
      \<lparr>parsed_at := None, experience := None, total_years_experience := None\<rparr>"
  by (simp add: parse_def Let_def)

text \<open>
  Claim C8, amended. Two runs on the same text whose clocks show the same year and month
  give records that are equal in every field but the parse timestamp: besides the
  timestamp, the record depends on the clock through the year and month of the current
  date only. For any two clock readings the records agree in every field other than the
  timestamp, the experience entries and the total, and the experience entries agree in
  everything but their durations.
\<close>

theorem C8_deterministic_within_month:
  assumes "year now1 = year now2" and "month now1 = month now2"
  shows "(parse path resume_text now1 utc1)\<lparr>parsed_at := Some utc2\<rparr>
           = parse path resume_text now2 utc2
         \<and> (parse path resume_text nowa utca)
              \<lparr>parsed_at := None, experience := None, total_years_experience := None\<rparr>
           = (parse path resume_text nowb utcb)
              \<lparr>parsed_at := None, experience := None, total_years_experience := None\<rparr>
         \<and> map (\<lambda>e. e\<lparr>duration_months := None\<rparr>) (extract_experience nowa resume_text)
           = map (\<lambda>e. e\<lparr>duration_months := None\<rparr>) (extract_experience nowb resume_text)"
proof -
  have "(parse path resume_text now1 utc1)\<lparr>parsed_at := Some utc2\<rparr>
           = parse path resume_text now2 utc2"
    by (simp add: parse_def Let_def extract_experience_year_month [OF assms])
  then show ?thesis
    using parse_up_to_clock_fields [of path resume_text nowa utca nowb utcb]
      extract_experience_up_to_duration [of nowa resume_text nowb]
    by (intro conjI)
qed

theorem C8_deterministic_within_month_witness:
  "year now_2024_06 = year now_2024_06_late \<and> month now_2024_06 = month now_2024_06_late
   \<and> now_2024_06 \<noteq> now_2024_06_late
   \<and> (parse ''cv.pdf'' resume_present now_2024_06 now_2024_06)\<lparr>parsed_at := Some now_2024_06_late\<rparr>
       = parse ''cv.pdf'' resume_present now_2024_06_late now_2024_06_late"
proof -
  have y: "year now_2024_06 = year now_2024_06_late"
    by (simp add: now_2024_06_def now_2024_06_late_def)
  have m: "month now_2024_06 = month now_2024_06_late"
    by (simp add: now_2024_06_def now_2024_06_late_def)
  have d: "now_2024_06 \<noteq> now_2024_06_late"
    by (simp add: now_2024_06_def now_2024_06_late_def)
  show ?thesis
    using C8_deterministic_within_month [OF y m, where path = "''cv.pdf''"
        and resume_text = resume_present and ?utc1.0 = now_2024_06 and ?utc2.0 = now_2024_06_late] y m d
    by simp
qed

section \<open>Properties of the technology-age check\<close>

lemma known_tech_loop_find:
  "known_tech_loop cy years tech table =
     (case find (\<lambda>(k, y). contains k tech) table of
        None \<Rightarrow> []
      | Some (k, y) \<Rightarrow>
          if years > (cy - y) + 1 then [experience_mismatch years (cy - y) k y] else [])"
  by (induction table) (auto simp: Let_def)

lemma scenario_A_full_text:
  "full_text_of scenario_A_facts = ''8 years of experience with fastapi''"
  by code_simp

lemma scenario_A_claims:
  "map (\<lambda>p. findall2 p ''8 years of experience with fastapi'') claim_patterns
     = [[(''8'', ''fastapi'')], [], []]"
  by code_simp

lemma scenario_A_flags:
  "validate_experience_claims 2024 scenario_A_facts
     = Some [experience_mismatch 8 6 ''fastapi'' 2018]"
  by code_simp

text \<open>
  Claim C4, as stated: the evidence of the flag has exactly the keys \<open>claimed_years\<close>,
  \<open>max_possible_years\<close>, \<open>technology\<close> and \<open>introduction_year\<close>. For the text of
  scenario A in 2024 the check raises one flag, and the fourth key of its evidence is
  \<open>release_year\<close>.
\<close>

theorem C4_evidence_key_is_release_year:
  "validate_experience_claims 2024 scenario_A_facts
     = Some [experience_mismatch 8 6 ''fastapi'' 2018]
   \<and> map fst (evidence (experience_mismatch 8 6 ''fastapi'' 2018))
       = [''claimed_years'', ''max_possible_years'', ''technology'', ''release_year'']
   \<and> set (map fst (evidence (experience_mismatch 8 6 ''fastapi'' 2018)))
       \<noteq> {''claimed_years'', ''max_possible_years'', ''technology'', ''introduction_year''}"
proof -
  have "''release_year'' \<notin> {''claimed_years'', ''max_possible_years'', ''technology'',
                              ''introduction_year''}"
    by simp
  moreover have "''release_year'' \<in> set (map fst (evidence (experience_mismatch 8 6 ''fastapi'' 2018)))"
    by (simp add: experience_mismatch_def)
  ultimately have "set (map fst (evidence (experience_mismatch 8 6 ''fastapi'' 2018)))
       \<noteq> {''claimed_years'', ''max_possible_years'', ''technology'', ''introduction_year''}"
    by metis
  then show ?thesis
    by (simp add: scenario_A_flags) (simp add: experience_mismatch_def)
qed


lemma rep_runs:
  assumes "(p', s', c') \<in> set (rx_runs (Rep lo hi q) prev s c)"
  shows "\<exists>j. lo \<le> j \<and> j \<le> length (takeWhile q s) \<and> s' = drop j s \<and> c' = c"
proof -
  define m where
    "m = (case hi of None \<Rightarrow> length (takeWhile q s)
          | Some h \<Rightarrow> min h (length (takeWhile q s)))"
  have m: "m \<le> length (takeWhile q s)"
    by (simp add: m_def split: option.split)
  from assms have "(p', s', c') \<in> (\<lambda>j. (last_of prev (take j s), drop j s, c)) ` {lo..<Suc m}"
    by (simp add: Let_def m_def del: upt_Suc)
  then obtain j where j: "lo \<le> j" "j \<le> m" "s' = drop j s" "c' = c" by auto
  show ?thesis
    by (rule exI [of _ j]) (use j m in simp)
qed

lemma eps_runs:
  "(p', s', c') \<in> set (rx_runs Eps prev s c) \<Longrightarrow> c' = c"
  by simp

lemma bnd_runs:
  "(p', s', c') \<in> set (rx_runs Bnd prev s c) \<Longrightarrow> c' = c"
  by (simp split: if_splits)

lemma set_runs:
  "(p', s', c') \<in> set (rx_runs (Set v) prev s c) \<Longrightarrow> c' = c"
  by (cases s) (auto split: if_splits)

lemma take_takeWhile_all:
  "j \<le> length (takeWhile q s) \<Longrightarrow> list_all q (take j s)"
proof (induction s arbitrary: j)
  case Nil
  then show ?case by simp
next
  case (Cons x xs)
  then show ?case by (cases j) (auto split: if_splits)
qed

lemma grp_rep_runs:
  assumes "(p', s', c') \<in> set (rx_runs (Grp n (Rep lo hi q)) prev s c)" and "1 \<le> lo"
  shows "\<exists>g. c' = c @ [(n, g)] \<and> g \<noteq> [] \<and> list_all q g"
proof -
  from assms(1) obtain c1 where r: "(p', s', c1) \<in> set (rx_runs (Rep lo hi q) prev s c)"
    and c': "c' = c1 @ [(n, take (length s - length s') s)]"
    by auto
  from rep_runs [OF r] obtain j where j: "lo \<le> j" "j \<le> length (takeWhile q s)"
    "s' = drop j s" "c1 = c" by blast
  have js: "j \<le> length s"
    using j(2) length_takeWhile_le [of q s] by linarith
  then have t: "take (length s - length s') s = take j s"
    using j(3) by simp
  have "take j s \<noteq> []" using j(1) assms(2) js by auto
  moreover have "list_all q (take j s)" by (rule take_takeWhile_all [OF j(2)])
  ultimately show ?thesis using c' t j(4) by simp
qed

lemma capture_spine_runs:
  "capture_spine r = Some sp \<Longrightarrow> (p', s', c') \<in> set (rx_runs r prev s c) \<Longrightarrow>
     \<exists>d. c' = c @ d \<and> list_all2 captured sp d"
proof (induction r arbitrary: sp p' s' c' prev s c rule: capture_spine.induct)
  case (1 n lo hi q)
  then have lo: "1 \<le> lo" and sp: "sp = [(n, q)]" by (auto split: if_splits)
  from grp_rep_runs [OF "1.prems"(2) lo] obtain g where
    "c' = c @ [(n, g)]" "g \<noteq> []" "list_all q g" by blast
  then show ?case using sp by (simp add: captured_def)
next
  case (3 a b)
  from "3.prems"(1) obtain x y where x: "capture_spine a = Some x"
    and y: "capture_spine b = Some y" and sp: "sp = x @ y"
    by (auto split: option.splits)
  from "3.prems"(2) obtain p1 s1 c1 where a: "(p1, s1, c1) \<in> set (rx_runs a prev s c)"
    and b: "(p', s', c') \<in> set (rx_runs b p1 s1 c1)"
    by auto
  from "3.IH"(1) [OF x a] obtain d1 where d1: "c1 = c @ d1" "list_all2 captured x d1" by blast
  from "3.IH"(2) [OF x y b] obtain d2 where d2: "c' = c1 @ d2" "list_all2 captured y d2"
    by blast
  show ?case
    using d1 d2 sp by (auto intro: list_all2_appendI)
next
  case (4 a b)
  then have a: "capture_spine a = Some []" and b: "capture_spine b = Some []" and sp: "sp = []"
    by (auto split: if_splits)
  from "4.prems"(2) have "(p', s', c') \<in> set (rx_runs a prev s c)
      \<or> (p', s', c') \<in> set (rx_runs b prev s c)" by auto
  then show ?case
    using "4.IH"(1) [OF a] "4.IH"(2) [OF b] sp by (metis append_Nil2 list_all2_Nil)
qed (auto dest!: set_runs rep_runs eps_runs bnd_runs simp del: rx_runs.simps)


lemma search_from_runs:
  "search_from r prev i s = Some m \<Longrightarrow>
     \<exists>prev' s0 p' rest. (p', rest, m_groups m) \<in> set (rx_runs r prev' s0 [])"
proof (induction r prev i s rule: search_from.induct)
  case (1 r prev i)
  then obtain p' s' c xs where "rx_runs r prev [] [] = (p', s', c) # xs" "m_groups m = c"
    by (auto split: list.splits)
  then have "(p', s', m_groups m) \<in> set (rx_runs r prev [] [])" by simp
  then show ?case by blast
next
  case (2 r prev i x xs)
  show ?case
  proof (cases "rx_runs r prev (x # xs) []")
    case Nil
    with 2 show ?thesis by simp
  next
    case (Cons a as)
    obtain p' s' c where a: "a = (p', s', c)" by (cases a)
    with Cons "2.prems" have "m_groups m = c" by auto
    with Cons a have "(p', s', m_groups m) \<in> set (rx_runs r prev (x # xs) [])" by simp
    then show ?thesis by blast
  qed
qed

lemma finditer_from_runs:
  "m \<in> set (finditer_from r prev i s) \<Longrightarrow>
     \<exists>prev' s0 p' rest. (p', rest, m_groups m) \<in> set (rx_runs r prev' s0 [])"
proof (induction r prev i s rule: finditer_from.induct)
  case (1 r prev i s)
  show ?case
  proof (cases "search_from r prev i s")
    case None
    with "1.prems" show ?thesis by (simp add: finditer_from.simps [of r prev i s])
  next
    case (Some m0)
    from "1.prems" Some have "m = m0 \<or> (i < m_end m0 \<and> m_end m0 \<le> i + length s
        \<and> m \<in> set (finditer_from r (last_of prev (take (m_end m0 - i) s)) (m_end m0)
                       (drop (m_end m0 - i) s)))"
      by (auto simp: finditer_from.simps [of r prev i s] split: if_splits)
    then show ?thesis
    proof
      assume "m = m0"
      with Some search_from_runs show ?thesis by blast
    next
      assume "i < m_end m0 \<and> m_end m0 \<le> i + length s
        \<and> m \<in> set (finditer_from r (last_of prev (take (m_end m0 - i) s)) (m_end m0)
                       (drop (m_end m0 - i) s))"
      with "1.IH" [OF Some] show ?thesis by blast
    qed
  qed
qed

lemma finditer_groups:
  assumes "capture_spine r = Some [(1, q1), (2, q2)]" and "m \<in> set (finditer r s)"
  shows "group m 1 \<noteq> [] \<and> list_all q1 (group m 1)
         \<and> group m 2 \<noteq> [] \<and> list_all q2 (group m 2)"
proof -
  from assms(2) obtain prev' s0 p' rest where
    "(p', rest, m_groups m) \<in> set (rx_runs r prev' s0 [])"
    unfolding finditer_def using finditer_from_runs by blast
  from capture_spine_runs [OF assms(1) this] obtain d where
    d: "m_groups m = d" "list_all2 captured [(1, q1), (2, q2)] d" by auto
  then obtain a b where ab: "d = [a, b]" "captured (1, q1) a" "captured (2, q2) b"
    by (auto simp: list_all2_Cons1)
  obtain g1 where a: "a = (1, g1)" using ab(2) by (cases a) (simp add: captured_def)
  obtain g2 where b: "b = (2, g2)" using ab(3) by (cases b) (simp add: captured_def)
  show ?thesis
    using d(1) ab a b by (simp add: group_def captured_def)
qed

lemma digit_val_digit: "is_digit c \<Longrightarrow> digit_val c \<noteq> None"
  by (auto simp: is_digit_def digit_val_def)

lemma int_digits_total: "list_all is_digit s \<Longrightarrow> int_digits acc s \<noteq> None"
proof (induction s arbitrary: acc)
  case Nil
  then show ?case by simp
next
  case (Cons c cs)
  then show ?case using digit_val_digit [of c] by (auto split: option.splits)
qed

lemma py_int_total: "s \<noteq> [] \<Longrightarrow> list_all is_digit s \<Longrightarrow> py_int s \<noteq> None"
  by (simp add: py_int_def int_digits_total)

lemma tech_char_not_digit: "tech_char c \<Longrightarrow> \<not> is_digit c"
  by (auto simp: tech_char_def is_digit_def is_alpha_def is_lower_def is_upper_def is_space_def)

lemma claim_patterns_spine:
  "p \<in> set claim_patterns \<Longrightarrow>
     capture_spine p = Some [(1, is_digit), (2, tech_char)]
     \<or> capture_spine p = Some [(1, tech_char), (2, is_digit)]"
  by (auto simp: claim_patterns_def seqs_def plus_def maybe_def star_def opt_def lit_def
      years_word_def)

lemma claim_of_total:
  assumes "p \<in> set claim_patterns" and "m \<in> set (findall2 p s)"
  shows "claim_of m \<noteq> None"
proof -
  from assms(2) obtain mt where mt: "mt \<in> set (finditer p s)"
    and m: "m = (group mt 1, group mt 2)"
    by (auto simp: findall2_def)
  from claim_patterns_spine [OF assms(1)] show ?thesis
  proof
    assume "capture_spine p = Some [(1, is_digit), (2, tech_char)]"
    from finditer_groups [OF this mt] have "group mt 1 \<noteq> []" "list_all is_digit (group mt 1)"
      by simp_all
    then show ?thesis
      using py_int_total [of "group mt 1"] m by (auto simp: claim_of_def isdigit_def)
  next
    assume "capture_spine p = Some [(1, tech_char), (2, is_digit)]"
    from finditer_groups [OF this mt] have g: "group mt 1 \<noteq> []" "list_all tech_char (group mt 1)"
      "group mt 2 \<noteq> []" "list_all is_digit (group mt 2)"
      by simp_all
    from g(1,2) have "\<not> list_all is_digit (group mt 1)"
      by (cases "group mt 1") (auto dest: tech_char_not_digit)
    then show ?thesis
      using py_int_total [OF g(3,4)] m by (auto simp: claim_of_def isdigit_def)
  qed
qed

lemma match_loop_total:
  "\<forall>m \<in> set mts. claim_of m \<noteq> None \<Longrightarrow>
     match_loop cy mts =
       Some (concat (map (\<lambda>m. case claim_of m of
                                  None \<Rightarrow> []
                                | Some (years, tech) \<Rightarrow>
                                    known_tech_loop cy years tech TECH_RELEASE_DATES) mts))"
  by (induction mts) (auto split: option.splits)

lemma pattern_loop_total:
  "\<forall>p \<in> set ps. \<forall>m \<in> set (findall2 p full_text). claim_of m \<noteq> None \<Longrightarrow>
     pattern_loop cy full_text ps =
       Some (concat (map (\<lambda>p. concat (map (\<lambda>m. case claim_of m of
                                  None \<Rightarrow> []
                                | Some (years, tech) \<Rightarrow>
                                    known_tech_loop cy years tech TECH_RELEASE_DATES)
                               (findall2 p full_text))) ps))"
  by (induction ps) (simp_all add: match_loop_total)

lemma validate_experience_claims_total:
  "validate_experience_claims cy rd =
     Some (concat (map (\<lambda>p. concat (map (\<lambda>m. case claim_of m of
                                  None \<Rightarrow> []
                                | Some (years, tech) \<Rightarrow>
                                    known_tech_loop cy years tech TECH_RELEASE_DATES)
                               (findall2 p (full_text_of rd)))) claim_patterns))"
  unfolding validate_experience_claims_def
  by (rule pattern_loop_total) (simp add: claim_of_total)


lemma scenario_A_first_pattern:
  "(''8'', ''fastapi'') \<in> set (findall2 (claim_patterns ! 0) (full_text_of scenario_A_facts))"
  by code_simp

lemma scenario_A_claim: "claim_of (''8'', ''fastapi'') = Some (8, ''fastapi'')"
  by code_simp

lemma scenario_A_find:
  "find (\<lambda>(k, y). contains k ''fastapi'') TECH_RELEASE_DATES = Some (''fastapi'', 2018)"
  by code_simp

text \<open>
  Claim C4, amended. The check never fails: its result is the concatenation, over the
  three patterns in order and the matches of each in order, of the flags of every
  matched claim, and every match yields a number of years and a phrase. For a claim of
  \<open>claimed\<close> years about \<open>phrase\<close>, a HIGH flag is raised if and only if
  \<open>claimed > (current_year - release_year) + 1\<close> for the first entry of the technology
  table whose name occurs in the phrase; the evidence of the flag has exactly the keys
  \<open>claimed_years\<close>, \<open>max_possible_years\<close>, \<open>technology\<close> and \<open>release_year\<close>. For the text
  \<open>8 years of experience with FastAPI\<close> in 2024 the check raises one HIGH flag with
  \<open>max_possible_years = 6\<close>.
\<close>

theorem C4_technology_age_check:
  "validate_experience_claims cy rd =
     Some (concat (map (\<lambda>p. concat (map (\<lambda>m. case claim_of m of
                                  None \<Rightarrow> []
                                | Some (years, tech) \<Rightarrow>
                                    known_tech_loop cy years tech TECH_RELEASE_DATES)
                               (findall2 p (full_text_of rd)))) claim_patterns))
   \<and> (\<forall>p \<in> set claim_patterns. \<forall>m \<in> set (findall2 p (full_text_of rd)). claim_of m \<noteq> None)
   \<and> known_tech_loop cy claimed phrase TECH_RELEASE_DATES =
       (case find (\<lambda>(k, y). contains k phrase) TECH_RELEASE_DATES of
          None \<Rightarrow> []
        | Some (k, y) \<Rightarrow>
            if claimed > (cy - y) + 1 then [experience_mismatch claimed (cy - y) k y] else [])
   \<and> ((\<exists>f \<in> set (known_tech_loop cy claimed phrase TECH_RELEASE_DATES). severity f = Some ''HIGH'')
        \<longleftrightarrow> (\<exists>k y. find (\<lambda>(k, y). contains k phrase) TECH_RELEASE_DATES = Some (k, y)
                  \<and> claimed > (cy - y) + 1))
   \<and> severity (experience_mismatch claimed mx known rel) = Some ''HIGH''
   \<and> evidence (experience_mismatch claimed mx known rel) =
       [(''claimed_years'', EvInt claimed), (''max_possible_years'', EvInt mx),
        (''technology'', EvStr known), (''release_year'', EvInt rel)]
   \<and> validate_experience_claims 2024 scenario_A_facts =
       Some [experience_mismatch 8 6 ''fastapi'' 2018]"
proof -
  have a: "\<forall>p \<in> set claim_patterns. \<forall>m \<in> set (findall2 p (full_text_of rd)). claim_of m \<noteq> None"
    using claim_of_total by blast
  have b: "(\<exists>f \<in> set (known_tech_loop cy claimed phrase TECH_RELEASE_DATES). severity f = Some ''HIGH'')
        \<longleftrightarrow> (\<exists>k y. find (\<lambda>(k, y). contains k phrase) TECH_RELEASE_DATES = Some (k, y)
                  \<and> claimed > (cy - y) + 1)"
  proof (cases "find (\<lambda>(k, y). contains k phrase) TECH_RELEASE_DATES")
    case None
    then show ?thesis by (simp add: known_tech_loop_find)
  next
    case (Some ky)
    obtain k y where "ky = (k, y)" by (cases ky)
    with Some show ?thesis
      by (simp add: known_tech_loop_find experience_mismatch_def SEVERITY_HIGH_def)
  qed
  have c: "severity (experience_mismatch claimed mx known rel) = Some ''HIGH''"
    by (simp add: experience_mismatch_def SEVERITY_HIGH_def)
  have d: "evidence (experience_mismatch claimed mx known rel) =
       [(''claimed_years'', EvInt claimed), (''max_possible_years'', EvInt mx),
        (''technology'', EvStr known), (''release_year'', EvInt rel)]"
    by (simp add: experience_mismatch_def)
  show ?thesis
    using validate_experience_claims_total [of cy rd] a
      known_tech_loop_find [of cy claimed phrase TECH_RELEASE_DATES] b c d scenario_A_flags
    by blast
qed

theorem C4_technology_age_check_witness:
  "(''8'', ''fastapi'') \<in> set (findall2 (claim_patterns ! 0) (full_text_of scenario_A_facts))
   \<and> claim_of (''8'', ''fastapi'') = Some (8, ''fastapi'')
   \<and> find (\<lambda>(k, y). contains k ''fastapi'') TECH_RELEASE_DATES = Some (''fastapi'', 2018)
   \<and> (8::int) > (2024 - 2018) + 1
   \<and> known_tech_loop 2024 8 ''fastapi'' TECH_RELEASE_DATES
       = [experience_mismatch 8 6 ''fastapi'' 2018]
   \<and> severity (experience_mismatch 8 6 ''fastapi'' 2018) = Some ''HIGH''
   \<and> validate_experience_claims 2024 scenario_A_facts
       = Some [experience_mismatch 8 6 ''fastapi'' 2018]"
proof -
  note t = C4_technology_age_check [where cy = 2024 and rd = scenario_A_facts and claimed = 8
      and phrase = "''fastapi''" and mx = 6 and known = "''fastapi''" and rel = 2018]
  have ar: "(8::int) > (2024 - 2018) + 1" by simp
  have k: "known_tech_loop 2024 8 ''fastapi'' TECH_RELEASE_DATES
       = [experience_mismatch 8 6 ''fastapi'' 2018]"
    using t unfolding scenario_A_find by simp
  have sev: "severity (experience_mismatch 8 6 ''fastapi'' 2018) = Some ''HIGH''"
    using t by blast
  have val: "validate_experience_claims 2024 scenario_A_facts
       = Some [experience_mismatch 8 6 ''fastapi'' 2018]"
    using t by blast
  show ?thesis
    by (intro conjI scenario_A_first_pattern scenario_A_claim scenario_A_find ar k sev val)
qed

section \<open>Properties of the experience excerpts\<close>

lemma far_apart_extract_section:
  "extract_section far_apart_resume ''experience'' = Some far_apart_section"
  by code_simp

lemma far_apart_matches:
  "finditer (hd DATE_PATTERNS) far_apart_section =
     [\<lparr>m_start = 0, m_end = 19, m_groups = [(1, ''Jan 2020''), (2, ''Feb 2021'')]\<rparr>,
      \<lparr>m_start = 319, m_end = 337, m_groups = [(1, ''Mar 2021''), (2, ''Present'')]\<rparr>]"
  by code_simp

lemma two_jobs_extract_section:
  "extract_section two_jobs_resume ''experience'' = Some two_jobs_section"
  by code_simp

lemma two_jobs_matches:
  "finditer (hd DATE_PATTERNS) two_jobs_section =
     [\<lparr>m_start = 0, m_end = 19, m_groups = [(1, ''Jan 2020''), (2, ''Feb 2021'')]\<rparr>,
      \<lparr>m_start = 25, m_end = 43, m_groups = [(1, ''Mar 2021''), (2, ''Present'')]\<rparr>]"
  by code_simp

lemma entries_length: "length (entries now sec mts) = length mts"
  by (induction now sec mts rule: entries.induct) simp_all

lemma entries_nth:
  "Suc i < length mts \<Longrightarrow>
     entries now sec mts ! i = make_entry now sec (mts ! i) (Some (mts ! Suc i))"
proof (induction now sec mts arbitrary: i rule: entries.induct)
  case (3 now sec m n rest)
  then show ?case by (cases i) simp_all
qed simp_all

lemma experience_loop_first:
  assumes "\<forall>q \<in> set earlier. finditer q sec = []" and "finditer p sec \<noteq> []"
  shows "experience_loop now sec (earlier @ p # later) = entries now sec (finditer p sec)"
  using assms by (induction earlier) (simp_all add: Let_def)

lemma raw_excerpt_window:
  assumes "extract_section resume_text ''experience'' = Some sec" and "sec \<noteq> []"
    and "DATE_PATTERNS = earlier @ p # later"
    and "\<forall>q \<in> set earlier. finditer q sec = []"
    and "finditer p sec = matches"
    and "Suc i < length matches" and "i < 10"
  shows "raw_text (extract_experience now resume_text ! i) =
           Some (take 300 (slice sec (nat (max 0 (int (m_start (matches ! i)) - 200)))
                                     (m_start (matches ! Suc i))))"
proof -
  have ne: "finditer p sec \<noteq> []" using assms(5,6) by auto
  have "experience_loop now sec DATE_PATTERNS = experience_loop now sec (earlier @ p # later)"
    by (simp only: assms(3))
  also have "\<dots> = entries now sec matches"
    using experience_loop_first [OF assms(4) ne] assms(5) by simp
  finally have "extract_experience now resume_text = take 10 (entries now sec matches)"
    using assms(1,2) by (simp add: extract_experience_def)
  then have "extract_experience now resume_text ! i = entries now sec matches ! i"
    using assms(7) by simp
  also have "\<dots> = make_entry now sec (matches ! i) (Some (matches ! Suc i))"
    by (rule entries_nth [OF assms(6)])
  finally show ?thesis by (simp add: make_entry_def Let_def)
qed

lemma date_patterns_split: "DATE_PATTERNS = [] @ hd DATE_PATTERNS # tl DATE_PATTERNS"
  by (simp add: DATE_PATTERNS_def)

lemma far_apart_length: "length far_apart_section = 337"
  by (simp add: far_apart_section_def)

lemma finditer_from_span:
  "m \<in> set (finditer_from r prev i s) \<Longrightarrow> m_start m \<le> m_end m"
proof (induction r prev i s rule: finditer_from.induct)
  case (1 r prev i s)
  show ?case
  proof (cases "search_from r prev i s")
    case None
    with "1.prems" show ?thesis by (simp add: finditer_from.simps [of r prev i s])
  next
    case (Some m0)
    from "1.prems" Some have "m = m0 \<or> (i < m_end m0 \<and> m_end m0 \<le> i + length s
        \<and> m \<in> set (finditer_from r (last_of prev (take (m_end m0 - i) s)) (m_end m0)
                       (drop (m_end m0 - i) s)))"
      by (auto simp: finditer_from.simps [of r prev i s] split: if_splits)
    then show ?thesis
    proof
      assume "m = m0"
      with search_from_span [OF Some] show ?thesis by simp
    next
      assume "i < m_end m0 \<and> m_end m0 \<le> i + length s
        \<and> m \<in> set (finditer_from r (last_of prev (take (m_end m0 - i) s)) (m_end m0)
                       (drop (m_end m0 - i) s))"
      with "1.IH" [OF Some] show ?thesis by blast
    qed
  qed
qed

lemma take_300_window:
  assumes "a \<le> e"
  shows "take 300 (slice s a (min (e + 500) n)) = take 300 (slice s a n)"
proof (cases "n \<le> e + 500")
  case True
  then show ?thesis by (simp add: min_def)
next
  case False
  then have "min (e + 500) n = e + 500" by simp
  moreover have "min 300 (e + 500 - a) = 300" using assms by simp
  moreover have "min 300 (n - a) = 300" using assms False by simp
  ultimately show ?thesis by (simp add: slice_def)
qed

lemma raw_excerpt_nearer_end:
  assumes "extract_section resume_text ''experience'' = Some sec" and "sec \<noteq> []"
    and "DATE_PATTERNS = earlier @ p # later"
    and "\<forall>q \<in> set earlier. finditer q sec = []"
    and "finditer p sec = matches"
    and "Suc i < length matches" and "i < 10"
  shows "raw_text (extract_experience now resume_text ! i) =
           Some (take 300 (slice sec (nat (max 0 (int (m_start (matches ! i)) - 200)))
                                     (min (m_end (matches ! i) + 500)
                                          (m_start (matches ! Suc i)))))"
proof -
  have "matches ! i \<in> set (finditer p sec)"
    using assms(5,6) by simp
  then have "m_start (matches ! i) \<le> m_end (matches ! i)"
    unfolding finditer_def by (rule finditer_from_span)
  then have "nat (max 0 (int (m_start (matches ! i)) - 200)) \<le> m_end (matches ! i)"
    by simp
  from take_300_window [OF this] raw_excerpt_window [OF assms]
  show ?thesis by simp
qed

text \<open>
  Claim C6, as stated: for a matched date pair that is not the last, the stored excerpt
  runs from 200 characters before the match to the nearer of 500 characters after the
  match end and the start of the next match. In a section whose two date pairs start at
  0 and 319, that window has 319 characters; the stored excerpt has the first 300.
\<close>

theorem C6_excerpt_cut_at_300:
  "extract_section far_apart_resume ''experience'' = Some far_apart_section
   \<and> map m_start (finditer (hd DATE_PATTERNS) far_apart_section) = [0, 319]
   \<and> map m_end (finditer (hd DATE_PATTERNS) far_apart_section) = [19, 337]
   \<and> raw_text (extract_experience now_2024_06 far_apart_resume ! 0)
       = Some (take 300 far_apart_section)
   \<and> slice far_apart_section (nat (max 0 (0 - 200))) (min (19 + 500) 319)
       = take 319 far_apart_section
   \<and> length (take 300 far_apart_section) = 300
   \<and> length (take 319 far_apart_section) = 319
   \<and> take 300 far_apart_section
       \<noteq> slice far_apart_section (nat (max 0 (0 - 200))) (min (19 + 500) 319)"
proof -
  have ne: "far_apart_section \<noteq> []"
    using far_apart_length by auto
  have raw: "raw_text (extract_experience now_2024_06 far_apart_resume ! 0)
       = Some (take 300 far_apart_section)"
    using raw_excerpt_window [OF far_apart_extract_section ne date_patterns_split _
        far_apart_matches, of 0 now_2024_06]
    by (simp add: slice_def)
  have sl: "slice far_apart_section (nat (max 0 (0 - 200))) (min (19 + 500) 319)
       = take 319 far_apart_section"
    by (simp add: slice_def)
  have l300: "length (take 300 far_apart_section) = 300"
    by (simp add: far_apart_length)
  have l319: "length (take 319 far_apart_section) = 319"
    by (simp add: far_apart_length)
  have neq: "take 300 far_apart_section
       \<noteq> slice far_apart_section (nat (max 0 (0 - 200))) (min (19 + 500) 319)"
  proof
    assume "take 300 far_apart_section
              = slice far_apart_section (nat (max 0 (0 - 200))) (min (19 + 500) 319)"
    then have "length (take 300 far_apart_section) = length (take 319 far_apart_section)"
      by (simp only: sl)
    with l300 l319 show False by simp
  qed
  show ?thesis
    by (intro conjI far_apart_extract_section raw sl l300 l319 neq)
       (simp_all add: far_apart_matches)
qed

text \<open>
  Claim C6, amended. For every matched date pair of the first date pattern that matches
  in the experience section, except the last pair and among the first ten, the stored
  excerpt is the first 300 characters of the span of the section text from 200
  characters before the match start (or from the start of the section) to the nearer of
  500 characters after the match end and the start of the next matched date pair. The
  code takes the span up to the start of the next pair, whose first 300 characters are
  the same.
\<close>

theorem C6_raw_excerpt_window:
  assumes "extract_section resume_text ''experience'' = Some sec" and "sec \<noteq> []"
    and "DATE_PATTERNS = earlier @ p # later"
    and "\<forall>q \<in> set earlier. finditer q sec = []"
    and "finditer p sec = matches"
    and "Suc i < length matches" and "i < 10"
  shows "raw_text (extract_experience now resume_text ! i) =
           Some (take 300 (slice sec (nat (max 0 (int (m_start (matches ! i)) - 200)))
                                     (min (m_end (matches ! i) + 500)
                                          (m_start (matches ! Suc i)))))
         \<and> raw_text (extract_experience now resume_text ! i) =
           Some (take 300 (slice sec (nat (max 0 (int (m_start (matches ! i)) - 200)))
                                     (m_start (matches ! Suc i))))"
  using raw_excerpt_nearer_end [OF assms] raw_excerpt_window [OF assms] by (rule conjI)

theorem C6_raw_excerpt_window_witness:
  "extract_section two_jobs_resume ''experience'' = Some two_jobs_section
   \<and> two_jobs_section \<noteq> []
   \<and> DATE_PATTERNS = [] @ hd DATE_PATTERNS # tl DATE_PATTERNS
   \<and> map m_start (finditer (hd DATE_PATTERNS) two_jobs_section) = [0, 25]
   \<and> raw_text (extract_experience now_2024_06 two_jobs_resume ! 0)
       = Some ''Jan 2020 - Feb 2021 then ''"
proof -
  have ne: "two_jobs_section \<noteq> []"
    by (simp add: two_jobs_section_def)
  have em: "\<forall>q \<in> set []. finditer q two_jobs_section = []"
    by simp
  have len: "Suc 0 < length (finditer (hd DATE_PATTERNS) two_jobs_section)"
    by (simp add: two_jobs_matches)
  have "raw_text (extract_experience now_2024_06 two_jobs_resume ! 0)
       = Some (take 300 (slice two_jobs_section
           (nat (max 0 (int (m_start (finditer (hd DATE_PATTERNS) two_jobs_section ! 0)) - 200)))
           (m_start (finditer (hd DATE_PATTERNS) two_jobs_section ! Suc 0))))"
    by (rule conjunct2 [OF C6_raw_excerpt_window [OF two_jobs_extract_section ne
            date_patterns_split em refl len]]) simp
  then have raw: "raw_text (extract_experience now_2024_06 two_jobs_resume ! 0)
       = Some ''Jan 2020 - Feb 2021 then ''"
    unfolding two_jobs_matches by (simp add: slice_def two_jobs_section_def)
  show ?thesis
    by (intro conjI two_jobs_extract_section ne date_patterns_split raw)
       (simp add: two_jobs_matches)
qed

end
